theory Spec2Isabelle
  imports Main
begin

section \<open>The record facade \<open>AirtableManager\<close> and its filter-formula builder\<close>

text \<open>
  The TypeScript class \<open>AirtableManager\<close> wraps the table handle of a remote record store.
  Every asynchronous method has the shape \<open>try { ... await remote call ... return success }
  catch (error) { return failure }\<close>. The remote store and the string conversions of the
  JavaScript engine are parameters of the embedding; the calls of the client library
  that are not requests (parameter checks, handles, the promise of \<open>eachPage\<close>) are
  modelled as the library behaves; everything the class itself computes is a HOL function.
\<close>

subsection \<open>JavaScript values seen by \<open>buildFilterFormula\<close>\<close>

text \<open>
  A filter mapping is \<open>Record<string, any>\<close>. The builder inspects a value only through
  \<open>!== undefined\<close>, \<open>!== null\<close>, \<open>!== ""\<close>, \<open>typeof\<close> and the string conversion of a
  template literal. \<open>JOther\<close> stands for a value of any other type (array, object, bigint,
  ...) that has a string conversion. The conversions of numbers and of other values belong
  to the JavaScript engine and are parameters (\<open>numberToString\<close>, \<open>otherToString\<close>).
\<close>

datatype ('n, 'o) jsval =
    JUndefined
  | JNull
  | JString string
  | JNumber 'n
  | JBoolean bool
  | JOther 'o

record ('n, 'o) runtime =
  numberToString :: "'n \<Rightarrow> string"
  otherToString :: "'o \<Rightarrow> string"

text \<open>\<open>`${value}`\<close>: the string conversion of a template literal.\<close>

fun toTemplate :: "('n, 'o) runtime \<Rightarrow> ('n, 'o) jsval \<Rightarrow> string" where
  "toTemplate T JUndefined = ''undefined''"
| "toTemplate T JNull = ''null''"
| "toTemplate T (JString s) = s"
| "toTemplate T (JNumber n) = numberToString T n"
| "toTemplate T (JBoolean b) = (if b then ''true'' else ''false'')"
| "toTemplate T (JOther x) = otherToString T x"

text \<open>\<open>Array.prototype.join\<close> on an array of strings.\<close>

fun join :: "string \<Rightarrow> string list \<Rightarrow> string" where
  "join sep [] = []"
| "join sep [x] = x"
| "join sep (x # y # ys) = x @ sep @ join sep (y # ys)"

subsection \<open>\<open>buildFilterFormula\<close>\<close>

text \<open>
  The body of the \<open>forEach\<close> callback for one entry \<open>[field, value]\<close>: the conditions
  array after the callback ran. The \<open>typeof\<close> chain is the order of the cases; the guard
  in front of it already excludes \<open>undefined\<close> and \<open>null\<close>, which would otherwise reach the
  final \<open>else\<close>.
\<close>

definition pushCondition ::
  "('n, 'o) runtime \<Rightarrow> string list \<Rightarrow> string \<times> ('n, 'o) jsval \<Rightarrow> string list" where
  \<open>pushCondition T conditions entry =
     (case entry of (field, value) \<Rightarrow>
        if value \<noteq> JUndefined \<and> value \<noteq> JNull \<and> value \<noteq> JString [] then
          (case value of
             JString s \<Rightarrow>
               conditions @ [''SEARCH("'' @ toTemplate T value @ ''", {'' @ field @ ''}) > 0'']
           | JNumber n \<Rightarrow>
               conditions @ [''{'' @ field @ ''} = '' @ toTemplate T value]
           | JBoolean b \<Rightarrow>
               conditions @ [''{'' @ field @ ''} = '' @ (if b then ''TRUE()'' else ''FALSE()'')]
           | _ \<Rightarrow>
               conditions @ [''{'' @ field @ ''} = "'' @ toTemplate T value @ ''"''])
        else conditions)\<close>

text \<open>
  \<open>filters\<close> is the list \<open>Object.entries(filters)\<close>, in the order in which \<open>forEach\<close>
  visits it.
\<close>

definition buildFilterFormula ::
  "('n, 'o) runtime \<Rightarrow> (string \<times> ('n, 'o) jsval) list \<Rightarrow> string" where
  \<open>buildFilterFormula T filters =
     (let conditions = foldl (pushCondition T) [] filters in
      if length conditions = 0 then []
      else if length conditions = 1 then conditions ! 0
      else ''AND('' @ join '', '' conditions @ '')'')\<close>

subsection \<open>The reference definition of the formula\<close>

text \<open>
  The specification's wording: absent values (null, undefined, empty string) are skipped;
  every other entry gives one predicate chosen by the type of its value; no predicate gives
  the empty string, one predicate is returned as it is, several are wrapped in \<open>AND(...)\<close>
  in entry order.
\<close>

fun absent :: "('n, 'o) jsval \<Rightarrow> bool" where
  "absent JUndefined = True"
| "absent JNull = True"
| "absent (JString s) = (s = [])"
| "absent _ = False"

fun predicate_spec :: "('n, 'o) runtime \<Rightarrow> string \<times> ('n, 'o) jsval \<Rightarrow> string" where
  \<open>predicate_spec T (field, JString s) = ''SEARCH("'' @ s @ ''", {'' @ field @ ''}) > 0''\<close>
| \<open>predicate_spec T (field, JNumber n) = ''{'' @ field @ ''} = '' @ numberToString T n\<close>
| \<open>predicate_spec T (field, JBoolean True) = ''{'' @ field @ ''} = TRUE()''\<close>
| \<open>predicate_spec T (field, JBoolean False) = ''{'' @ field @ ''} = FALSE()''\<close>
| \<open>predicate_spec T (field, v) = ''{'' @ field @ ''} = "'' @ toTemplate T v @ ''"''\<close>

fun conjunction_spec :: "string list \<Rightarrow> string" where
  "conjunction_spec [] = []"
| "conjunction_spec [p] = p"
| "conjunction_spec (p # ps) = ''AND('' @ p @ concat (map (\<lambda>q. '', '' @ q) ps) @ '')''"

definition formula_spec ::
  "('n, 'o) runtime \<Rightarrow> (string \<times> ('n, 'o) jsval) list \<Rightarrow> string" where
  "formula_spec T filters =
     conjunction_spec (map (predicate_spec T) (filter (\<lambda>e. \<not> absent (snd e)) filters))"

subsection \<open>Errors, records and response envelopes\<close>

text \<open>
  What a rejected remote call throws: an error object, read by the \<open>catch\<close> blocks only
  through \<open>error.statusCode\<close> and \<open>error.message\<close>; either property may be missing.
\<close>

record jserror =
  statusCode :: "nat option"
  errMessage :: "string option"

text \<open>\<open>error.message || fallback\<close>: a missing or empty message is falsy.\<close>

definition orElse :: "string option \<Rightarrow> string \<Rightarrow> string" where
  "orElse m fallback = (case m of None \<Rightarrow> fallback | Some s \<Rightarrow> if s = [] then fallback else s)"

text \<open>
  The \<open>TypeError\<close> of the engine for reading a property of \<open>undefined\<close>: it has no
  \<open>statusCode\<close> and a non-empty message (its exact wording is the engine's).
\<close>

definition typeError :: jserror where
  "typeError = \<lparr>statusCode = None, errMessage = Some ''Cannot read properties of undefined''\<rparr>"

text \<open>
  A record as the client library delivers it (\<open>record.id\<close>, \<open>record.fields\<close>,
  \<open>record._rawJson?.createdTime\<close>) and as the facade returns it. The field mapping
  \<open>Record<string, any>\<close> is passed through untouched: type \<open>'f\<close>.
\<close>

record 'f rawRecord =
  raw_id :: string
  raw_fields :: 'f
  raw_createdTime :: "string option"

record 'f AirtableRecord =
  recordId :: string
  recordFields :: 'f
  createdTime :: "string option"

definition formatRecord :: "'f rawRecord \<Rightarrow> 'f AirtableRecord" where
  "formatRecord record = \<lparr>recordId = raw_id record, recordFields = raw_fields record,
     createdTime = raw_createdTime record\<rparr>"

text \<open>\<open>this.formatRecord(records[0])\<close>: \<open>records[0]\<close> of an empty array is \<open>undefined\<close>.\<close>

definition formatFirst :: "'f rawRecord list \<Rightarrow> jserror + 'f AirtableRecord" where
  "formatFirst records = (case records of [] \<Rightarrow> Inl typeError | r # _ \<Rightarrow> Inr (formatRecord r))"

record 'f CreateRecordInput =
  create_fields :: 'f

record 'f UpdateRecordInput =
  update_id :: string
  update_fields :: 'f

text \<open>
  The response interfaces of \<open>airtable.types\<close> and the inline result types of
  \<open>getPaginated\<close>, \<open>count\<close> and \<open>exists\<close> are all of one shape: \<open>success\<close> and optional
  members. \<open>None\<close> is a member that the returned object literal leaves out (or, for
  \<open>nextOffset\<close>, sets to \<open>undefined\<close>).
\<close>

record 'd response =
  success :: bool
  data :: "'d option"
  count :: "nat option"
  nextOffset :: "string option"
  message :: "string option"
  deletedCount :: "nat option"
  exists :: "bool option"
  error :: "string option"

definition succeeded :: "'d response" where
  "succeeded = \<lparr>success = True, data = None, count = None, nextOffset = None, message = None,
     deletedCount = None, exists = None, error = None\<rparr>"

definition failure :: "string \<Rightarrow> 'd response" where
  "failure msg = \<lparr>success = False, data = None, count = None, nextOffset = None, message = None,
     deletedCount = None, exists = None, error = Some msg\<rparr>"

subsection \<open>The remote store and the client library\<close>

text \<open>
  A table handle \<open>base(tableName)\<close> is the pair of the base identifier and the table name.
\<close>

type_synonym tableRef = "string \<times> string"

datatype direction = Asc | Desc

record sortSpec =
  sort_field :: string
  sort_direction :: direction

text \<open>The \<open>selectOptions\<close> object handed to \<open>table.select\<close>; \<open>None\<close> is a key never set.\<close>

record selectOptions =
  sel_maxRecords :: "int option"
  sel_view :: "string option"
  sel_sort :: "sortSpec list option"
  sel_filterByFormula :: "string option"
  sel_offset :: "string option"
  sel_fields :: "string list option"

text \<open>
  What the remote answers to a \<open>select\<close>, page by page: a failing page request, the last
  page, or a page after which the server offers a further one. A listing is finite: the
  table is, and so is the sequence of its pages.
\<close>

datatype 'f listing =
    ListFail jserror
  | LastPage "'f rawRecord list"
  | MorePage "'f rawRecord list" "'f listing"

text \<open>The requests that reach the remote store.\<close>

datatype 'f call =
    CreateCall tableRef "'f CreateRecordInput list"
  | UpdateCall tableRef "'f UpdateRecordInput list"
  | DestroyCall tableRef "string list"
  | FindCall tableRef string
  | PageCall tableRef selectOptions

text \<open>
  The remote store with state \<open>'s\<close>: every call either rejects with an error or resolves,
  and may change the store either way.
\<close>

record ('s, 'f) remote =
  remoteCreate :: "tableRef \<Rightarrow> 'f CreateRecordInput list \<Rightarrow> 's \<Rightarrow> (jserror + 'f rawRecord list) \<times> 's"
  remoteUpdate :: "tableRef \<Rightarrow> 'f UpdateRecordInput list \<Rightarrow> 's \<Rightarrow> (jserror + 'f rawRecord list) \<times> 's"
  remoteDestroy :: "tableRef \<Rightarrow> string list \<Rightarrow> 's \<Rightarrow> (jserror + 'f rawRecord list) \<times> 's"
  remoteFind :: "tableRef \<Rightarrow> string \<Rightarrow> 's \<Rightarrow> (jserror + 'f rawRecord) \<times> 's"
  remoteSelect :: "tableRef \<Rightarrow> selectOptions \<Rightarrow> 's \<Rightarrow> 'f listing"

text \<open>The world outside the facade: the remote store and the log of requests sent to it.\<close>

record ('s, 'f) world =
  store :: 's
  calls :: "'f call list"

definition tableCreate ::
  "('s, 'f) remote \<Rightarrow> tableRef \<Rightarrow> 'f CreateRecordInput list \<Rightarrow> ('s, 'f) world
     \<Rightarrow> (jserror + 'f rawRecord list) \<times> ('s, 'f) world" where
  "tableCreate R t batch w =
     (case remoteCreate R t batch (store w) of
        (r, s') \<Rightarrow> (r, \<lparr>store = s', calls = calls w @ [CreateCall t batch]\<rparr>))"

definition tableUpdate ::
  "('s, 'f) remote \<Rightarrow> tableRef \<Rightarrow> 'f UpdateRecordInput list \<Rightarrow> ('s, 'f) world
     \<Rightarrow> (jserror + 'f rawRecord list) \<times> ('s, 'f) world" where
  "tableUpdate R t batch w =
     (case remoteUpdate R t batch (store w) of
        (r, s') \<Rightarrow> (r, \<lparr>store = s', calls = calls w @ [UpdateCall t batch]\<rparr>))"

definition tableDestroy ::
  "('s, 'f) remote \<Rightarrow> tableRef \<Rightarrow> string list \<Rightarrow> ('s, 'f) world
     \<Rightarrow> (jserror + 'f rawRecord list) \<times> ('s, 'f) world" where
  "tableDestroy R t batch w =
     (case remoteDestroy R t batch (store w) of
        (r, s') \<Rightarrow> (r, \<lparr>store = s', calls = calls w @ [DestroyCall t batch]\<rparr>))"

definition tableFind ::
  "('s, 'f) remote \<Rightarrow> tableRef \<Rightarrow> string \<Rightarrow> ('s, 'f) world
     \<Rightarrow> (jserror + 'f rawRecord) \<times> ('s, 'f) world" where
  "tableFind R t ident w =
     (case remoteFind R t ident (store w) of
        (r, s') \<Rightarrow> (r, \<lparr>store = s', calls = calls w @ [FindCall t ident]\<rparr>))"

text \<open>
  \<open>table.select(selectOptions)\<close> of the client library checks the types of the options
  before anything is sent and throws when one is wrong. The options the source sets have
  the expected types, except \<open>offset\<close>: the library wants a number there, and
  \<open>getPaginated\<close> sets it to its string argument.
\<close>

definition invalidSelectParameters :: jserror where
  "invalidSelectParameters =
     \<lparr>statusCode = None, errMessage = Some ''Airtable: invalid parameters for select''\<rparr>"

definition selectValidation :: "selectOptions \<Rightarrow> jserror option" where
  "selectValidation selectOptions =
     (case sel_offset selectOptions of None \<Rightarrow> None | Some c \<Rightarrow> Some invalidSelectParameters)"

text \<open>
  \<open>eachPage(callback)\<close> of the client library, awaited. The callback is a function of its
  accumulated variables \<open>acc\<close> and the page; it returns the new variables and whether it
  called \<open>fetchNextPage\<close>, or the error it threw. Every page handed to the callback was
  one request. The library rejects the promise when a page request fails, and resolves it
  when \<open>fetchNextPage\<close> is called after the last page; nothing else settles it. So the
  result is \<open>Some (Inl e)\<close> for a failed request, \<open>Some (Inr acc)\<close> when the callback
  advanced past the last page, and \<open>None\<close>, a promise pending for ever, when the callback
  returns without calling \<open>fetchNextPage\<close> or throws (the exception is raised in the
  library's response handler, outside the promise the method awaits).
\<close>

fun eachPage ::
  "('a \<Rightarrow> 'f rawRecord list \<Rightarrow> jserror + 'a \<times> bool) \<Rightarrow> 'f call
     \<Rightarrow> 'f listing \<Rightarrow> 'a \<Rightarrow> 'f call list \<Rightarrow> (jserror + 'a) option \<times> 'f call list" where
  "eachPage callback c (ListFail e) acc log = (Some (Inl e), log @ [c])"
| "eachPage callback c (LastPage pageRecords) acc log =
     (case callback acc pageRecords of
        Inl e \<Rightarrow> (None, log @ [c])
      | Inr (acc', fetchNextPage) \<Rightarrow>
          if fetchNextPage then (Some (Inr acc'), log @ [c]) else (None, log @ [c]))"
| "eachPage callback c (MorePage pageRecords rest) acc log =
     (case callback acc pageRecords of
        Inl e \<Rightarrow> (None, log @ [c])
      | Inr (acc', fetchNextPage) \<Rightarrow>
          if fetchNextPage then eachPage callback c rest acc' (log @ [c])
          else (None, log @ [c]))"

text \<open>\<open>await this.table.select(selectOptions).eachPage(callback)\<close>.\<close>

definition selectEachPage ::
  "('s, 'f) remote \<Rightarrow> tableRef \<Rightarrow> selectOptions
     \<Rightarrow> ('a \<Rightarrow> 'f rawRecord list \<Rightarrow> jserror + 'a \<times> bool) \<Rightarrow> 'a \<Rightarrow> ('s, 'f) world
     \<Rightarrow> (jserror + 'a) option \<times> ('s, 'f) world" where
  "selectEachPage R t selectOptions callback acc w =
     (case selectValidation selectOptions of
        Some e \<Rightarrow> (Some (Inl e), w)
      | None \<Rightarrow>
          (case eachPage callback (PageCall t selectOptions)
                  (remoteSelect R t selectOptions (store w)) acc (calls w) of
             (r, log) \<Rightarrow> (r, w\<lparr>calls := log\<rparr>)))"

subsection \<open>The facade: construction and configuration\<close>

record AirtableConfig =
  apiKey :: string
  baseId :: string
  tableName :: string

text \<open>
  The private members of the class. \<open>Airtable.base(baseId)\<close> is represented by the base
  identifier it was made from.
\<close>

record AirtableManager =
  config :: AirtableConfig
  base :: string
  table :: tableRef

text \<open>
  Two calls of the client library that send nothing. \<open>Airtable.base(baseId)\<close>, after
  \<open>Airtable.configure\<close> with the key, throws when there is no key (an empty key is none,
  the process environment providing no other). \<open>base(tableName)\<close> makes the table handle
  and throws when the name is empty.
\<close>

definition apiKeyRequired :: jserror where
  "apiKeyRequired =
     \<lparr>statusCode = None, errMessage = Some ''An API key is required to connect to Airtable''\<rparr>"

definition tableNameRequired :: jserror where
  "tableNameRequired =
     \<lparr>statusCode = None, errMessage = Some ''Table name or table ID is required''\<rparr>"

definition libraryBase :: "string \<Rightarrow> string \<Rightarrow> jserror + string" where
  "libraryBase apiKey' baseId' = (if apiKey' = [] then Inl apiKeyRequired else Inr baseId')"

definition libraryTable :: "string \<Rightarrow> string \<Rightarrow> jserror + tableRef" where
  "libraryTable base' tableName' =
     (if tableName' = [] then Inl tableNameRequired else Inr (base', tableName'))"

text \<open>The constructor: \<open>Inl\<close> is the error it throws, and then there is no facade.\<close>

definition newAirtableManager :: "string \<Rightarrow> string \<Rightarrow> string \<Rightarrow> jserror + AirtableManager" where
  "newAirtableManager apiKey' baseId' tableName' =
     (let config' = \<lparr>apiKey = apiKey', baseId = baseId', tableName = tableName'\<rparr> in
      case libraryBase (apiKey config') (baseId config') of
        Inl err \<Rightarrow> Inl err
      | Inr base' \<Rightarrow>
          (case libraryTable base' (tableName config') of
             Inl err \<Rightarrow> Inl err
           | Inr table' \<Rightarrow> Inr \<lparr>config = config', base = base', table = table'\<rparr>))"

text \<open>\<open>getConfig\<close> returns a copy \<open>{ ...this.config }\<close>; values are immutable here.\<close>

definition getConfig :: "AirtableManager \<Rightarrow> AirtableConfig" where
  "getConfig this = config this"

text \<open>
  \<open>switchTable\<close> has no \<open>try\<close>: it first assigns \<open>this.config.tableName\<close> and then
  \<open>this.table = this.base(tableName)\<close>, so when the library throws, the name is already
  changed and the handle is the old one. The result is the error thrown (\<open>None\<close> for a
  normal return of nothing), the members afterwards, and the world afterwards; neither
  statement sends a request.
\<close>

definition switchTable ::
  "string \<Rightarrow> AirtableManager \<Rightarrow> ('s, 'f) world
     \<Rightarrow> jserror option \<times> AirtableManager \<times> ('s, 'f) world" where
  "switchTable tableName' this w =
     (let this1 = this\<lparr>config := (config this)\<lparr>tableName := tableName'\<rparr>\<rparr> in
      case libraryTable (base this1) tableName' of
        Inl err \<Rightarrow> (Some err, this1, w)
      | Inr table' \<Rightarrow> (None, this1\<lparr>table := table'\<rparr>, w))"

subsection \<open>Single-record operations\<close>

text \<open>
  Each method returns its envelope together with the world after its remote calls. The
  outer \<open>case\<close> of every definition is the \<open>try\<close>/\<open>catch\<close> of the method: \<open>Inl err\<close> is
  what the \<open>try\<close> block threw. The methods \<open>exists\<close> and \<open>count\<close> are \<open>exists_record\<close> and
  \<open>count_records\<close> here, since \<open>exists\<close> and \<open>count\<close> name members of the envelope.
\<close>

definition create ::
  "('s, 'f) remote \<Rightarrow> AirtableManager \<Rightarrow> 'f CreateRecordInput \<Rightarrow> ('s, 'f) world
     \<Rightarrow> 'f AirtableRecord response \<times> ('s, 'f) world" where
  "create R this input w =
     (case tableCreate R (table this) [input] w of (r, w') \<Rightarrow>
        (case (case r of Inl e \<Rightarrow> Inl e | Inr records \<Rightarrow> formatFirst records) of
           Inr record \<Rightarrow> (succeeded\<lparr>data := Some record\<rparr>, w')
         | Inl err \<Rightarrow> (failure (orElse (errMessage err) ''Failed to create record''), w')))"

definition getById ::
  "('s, 'f) remote \<Rightarrow> AirtableManager \<Rightarrow> string \<Rightarrow> ('s, 'f) world
     \<Rightarrow> 'f AirtableRecord response \<times> ('s, 'f) world" where
  "getById R this ident w =
     (case tableFind R (table this) ident w of (r, w') \<Rightarrow>
        (case r of
           Inr record \<Rightarrow> (succeeded\<lparr>data := Some (formatRecord record)\<rparr>, w')
         | Inl err \<Rightarrow>
             (failure (if statusCode err = Some 404 then ''Record not found''
                       else orElse (errMessage err) ''Failed to fetch record''), w')))"

definition update ::
  "('s, 'f) remote \<Rightarrow> AirtableManager \<Rightarrow> 'f UpdateRecordInput \<Rightarrow> ('s, 'f) world
     \<Rightarrow> 'f AirtableRecord response \<times> ('s, 'f) world" where
  "update R this input w =
     (case tableUpdate R (table this)
             [\<lparr>update_id = update_id input, update_fields = update_fields input\<rparr>] w of (r, w') \<Rightarrow>
        (case (case r of Inl e \<Rightarrow> Inl e | Inr records \<Rightarrow> formatFirst records) of
           Inr record \<Rightarrow> (succeeded\<lparr>data := Some record\<rparr>, w')
         | Inl err \<Rightarrow>
             (failure (if statusCode err = Some 404 then ''Record not found''
                       else orElse (errMessage err) ''Failed to update record''), w')))"

definition delete ::
  "('s, 'f) remote \<Rightarrow> AirtableManager \<Rightarrow> string \<Rightarrow> ('s, 'f) world
     \<Rightarrow> 'f AirtableRecord response \<times> ('s, 'f) world" where
  "delete R this ident w =
     (case tableDestroy R (table this) [ident] w of (r, w') \<Rightarrow>
        (case r of
           Inr _ \<Rightarrow> (succeeded\<lparr>message := Some ''Record deleted successfully''\<rparr>, w')
         | Inl err \<Rightarrow>
             (failure (if statusCode err = Some 404 then ''Record not found''
                       else orElse (errMessage err) ''Failed to delete record''), w')))"

definition exists_record ::
  "('s, 'f) remote \<Rightarrow> AirtableManager \<Rightarrow> string \<Rightarrow> ('s, 'f) world
     \<Rightarrow> 'f AirtableRecord response \<times> ('s, 'f) world" where
  "exists_record R this ident w =
     (case tableFind R (table this) ident w of (r, w') \<Rightarrow>
        (case r of
           Inr _ \<Rightarrow> (succeeded\<lparr>exists := Some True\<rparr>, w')
         | Inl err \<Rightarrow>
             if statusCode err = Some 404 then (succeeded\<lparr>exists := Some False\<rparr>, w')
             else (failure (orElse (errMessage err) ''Failed to check record existence''), w')))"

subsection \<open>Bulk operations\<close>

definition batchSize :: nat where
  "batchSize = 10"

text \<open>\<open>Array.prototype.slice(start, end)\<close> for \<open>0 \<le> start \<le> end\<close>.\<close>

definition slice :: "'a list \<Rightarrow> nat \<Rightarrow> nat \<Rightarrow> 'a list" where
  "slice xs start end' = take (end' - start) (drop start xs)"

text \<open>
  The loop \<open>for (let i = 0; i < input.length; i += batchSize)\<close> that \<open>bulkCreate\<close>,
  \<open>bulkUpdate\<close> and \<open>bulkDelete\<close> each contain: slice the batch, await the remote call
  \<open>call\<close> on it, fold its result into the loop's variable with \<open>step\<close>. A rejected call
  leaves the loop at once, with the error.
\<close>

function batchLoop ::
  "('x list \<Rightarrow> 'w \<Rightarrow> (jserror + 'r) \<times> 'w) \<Rightarrow> ('a \<Rightarrow> 'x list \<Rightarrow> 'r \<Rightarrow> 'a)
     \<Rightarrow> 'x list \<Rightarrow> nat \<Rightarrow> 'a \<Rightarrow> 'w \<Rightarrow> (jserror + 'a) \<times> 'w" where
  "batchLoop call step input i acc w =
     (if i < length input then
        (let batch = slice input i (i + batchSize) in
         case call batch w of
           (Inl err, w') \<Rightarrow> (Inl err, w')
         | (Inr records, w') \<Rightarrow> batchLoop call step input (i + batchSize) (step acc batch records) w')
      else (Inr acc, w))"
  by pat_completeness auto
termination
  by (relation "measure (\<lambda>(call, step, input, i, acc, w). length input - i)")
     (auto simp: batchSize_def)

declare batchLoop.simps [simp del]

text \<open>\<open>`${deletedCount}`\<close> for a count of array elements: its decimal digits.\<close>

fun natToString :: "nat \<Rightarrow> string" where
  "natToString n =
     (if n < 10 then [''0123456789'' ! n]
      else natToString (n div 10) @ [''0123456789'' ! (n mod 10)])"

declare natToString.simps [simp del]

definition bulkCreate ::
  "('s, 'f) remote \<Rightarrow> AirtableManager \<Rightarrow> 'f CreateRecordInput list \<Rightarrow> ('s, 'f) world
     \<Rightarrow> 'f AirtableRecord list response \<times> ('s, 'f) world" where
  "bulkCreate R this input_records w =
     (case batchLoop (tableCreate R (table this))
             (\<lambda>results batch records. results @ map formatRecord records) input_records 0 [] w of
        (Inr results, w') \<Rightarrow> (succeeded\<lparr>data := Some results, count := Some (length results)\<rparr>, w')
      | (Inl err, w') \<Rightarrow> (failure (orElse (errMessage err) ''Bulk create failed''), w'))"

definition bulkUpdate ::
  "('s, 'f) remote \<Rightarrow> AirtableManager \<Rightarrow> 'f UpdateRecordInput list \<Rightarrow> ('s, 'f) world
     \<Rightarrow> 'f AirtableRecord list response \<times> ('s, 'f) world" where
  "bulkUpdate R this input_records w =
     (case batchLoop (tableUpdate R (table this))
             (\<lambda>results batch records. results @ map formatRecord records) input_records 0 [] w of
        (Inr results, w') \<Rightarrow> (succeeded\<lparr>data := Some results, count := Some (length results)\<rparr>, w')
      | (Inl err, w') \<Rightarrow> (failure (orElse (errMessage err) ''Bulk update failed''), w'))"

definition bulkDelete ::
  "('s, 'f) remote \<Rightarrow> AirtableManager \<Rightarrow> string list \<Rightarrow> ('s, 'f) world
     \<Rightarrow> 'f AirtableRecord list response \<times> ('s, 'f) world" where
  "bulkDelete R this input_ids w =
     (case batchLoop (tableDestroy R (table this))
             (\<lambda>n batch records. n + length batch) input_ids 0 0 w of
        (Inr n, w') \<Rightarrow>
          (succeeded\<lparr>deletedCount := Some n,
             message := Some (natToString n @ '' records deleted successfully'')\<rparr>, w')
      | (Inl err, w') \<Rightarrow> (failure (orElse (errMessage err) ''Bulk delete failed''), w'))"

subsection \<open>Listing operations\<close>

text \<open>
  The optional members of \<open>GetAllRecordsOptions\<close> and \<open>SearchOptions\<close>; \<open>None\<close> is a
  member that is missing or \<open>undefined\<close>. A call \<open>getAll()\<close> without argument takes the
  default \<open>{}\<close>, the record of four \<open>None\<close>s. Record counts (\<open>maxRecords\<close>, \<open>pageSize\<close>)
  are integers, of which only 0 is falsy.
\<close>

record GetAllRecordsOptions =
  maxRecords :: "int option"
  view :: "string option"
  sortBy :: "sortSpec list option"
  filterByFormula :: "string option"

record ('n, 'o) SearchOptions =
  search_filters :: "(string \<times> ('n, 'o) jsval) list"
  search_maxRecords :: "int option"
  search_view :: "string option"

text \<open>
  The \<open>selectOptions\<close> that \<open>getAll\<close> builds. \<open>options.maxRecords || 100\<close> and
  \<open>options.view || "Grid view"\<close> take the default for every falsy value; \<open>if (options.sort)\<close>
  holds for every array, \<open>if (options.filterByFormula)\<close> for every non-empty string.
\<close>

definition getAll_selectOptions :: "GetAllRecordsOptions \<Rightarrow> selectOptions" where
  "getAll_selectOptions options =
     \<lparr>sel_maxRecords =
        Some (case maxRecords options of None \<Rightarrow> 100 | Some n \<Rightarrow> if n = 0 then 100 else n),
      sel_view =
        Some (case view options of None \<Rightarrow> ''Grid view'' | Some v \<Rightarrow> if v = [] then ''Grid view'' else v),
      sel_sort = sortBy options,
      sel_filterByFormula =
        (case filterByFormula options of None \<Rightarrow> None | Some f \<Rightarrow> if f = [] then None else Some f),
      sel_offset = None,
      sel_fields = None\<rparr>"

definition getAll ::
  "('s, 'f) remote \<Rightarrow> AirtableManager \<Rightarrow> GetAllRecordsOptions \<Rightarrow> ('s, 'f) world
     \<Rightarrow> ('f AirtableRecord list response \<times> ('s, 'f) world) option" where
  "getAll R this options w =
     (case selectEachPage R (table this) (getAll_selectOptions options)
             (\<lambda>records pageRecords. Inr (records @ map formatRecord pageRecords, True)) [] w of
        (None, w') \<Rightarrow> None
      | (Some (Inr records), w') \<Rightarrow>
          Some (succeeded\<lparr>data := Some records, count := Some (length records)\<rparr>, w')
      | (Some (Inl err), w') \<Rightarrow>
          Some (failure (orElse (errMessage err) ''Failed to fetch records''), w'))"

text \<open>
  \<open>search\<close>: its \<open>try\<close> block consists of \<open>buildFilterFormula\<close>, which returns a string for
  every filter list, and of the awaited \<open>getAll\<close>, which catches its own errors; the
  \<open>catch\<close> block of \<open>search\<close> has nothing to catch.
\<close>

definition search ::
  "('n, 'o) runtime \<Rightarrow> ('s, 'f) remote \<Rightarrow> AirtableManager \<Rightarrow> ('n, 'o) SearchOptions
     \<Rightarrow> ('s, 'f) world \<Rightarrow> ('f AirtableRecord list response \<times> ('s, 'f) world) option" where
  "search T R this options w =
     (let filterFormula = buildFilterFormula T (search_filters options) in
      getAll R this
        \<lparr>maxRecords = search_maxRecords options, view = search_view options,
         sortBy = None, filterByFormula = Some filterFormula\<rparr> w)"

text \<open>
  \<open>getPaginated(pageSize = 20, offset?)\<close>: \<open>None\<close> is an argument left out. The page
  callback pushes the page, sets \<open>nextOffset\<close> when the page has \<open>pageSize\<close> records, and
  returns without calling \<open>fetchNextPage\<close>. \<open>pageRecords[pageRecords.length - 1]\<close> of an
  empty page is \<open>undefined\<close>, and reading its \<open>id\<close> throws. The result of the method is
  \<open>None\<close> when the awaited promise stays pending: the method then never returns.
\<close>

definition getPaginated_callback ::
  "int \<Rightarrow> 'f AirtableRecord list \<times> string option \<Rightarrow> 'f rawRecord list
     \<Rightarrow> jserror + ('f AirtableRecord list \<times> string option) \<times> bool" where
  "getPaginated_callback pageSize acc pageRecords =
     (case acc of (records, nextOffset') \<Rightarrow>
        (let records' = records @ map formatRecord pageRecords in
         if int (length pageRecords) = pageSize then
           (if pageRecords = [] then Inl typeError
            else Inr ((records', Some (raw_id (pageRecords ! (length pageRecords - 1)))), False))
         else Inr ((records', nextOffset'), False)))"

definition pageSize_default :: "int option \<Rightarrow> int" where
  "pageSize_default pageSize_arg = (case pageSize_arg of None \<Rightarrow> 20 | Some n \<Rightarrow> n)"

definition getPaginated_selectOptions :: "int \<Rightarrow> string option \<Rightarrow> selectOptions" where
  "getPaginated_selectOptions pageSize offset =
     \<lparr>sel_maxRecords = Some pageSize, sel_view = Some ''Grid view'', sel_sort = None,
      sel_filterByFormula = None,
      sel_offset = (case offset of None \<Rightarrow> None | Some c \<Rightarrow> if c = [] then None else Some c),
      sel_fields = None\<rparr>"

definition getPaginated ::
  "('s, 'f) remote \<Rightarrow> AirtableManager \<Rightarrow> int option \<Rightarrow> string option \<Rightarrow> ('s, 'f) world
     \<Rightarrow> ('f AirtableRecord list response \<times> ('s, 'f) world) option" where
  "getPaginated R this pageSize_arg offset w =
     (let pageSize = pageSize_default pageSize_arg;
          selectOptions = getPaginated_selectOptions pageSize offset
      in case selectEachPage R (table this) selectOptions (getPaginated_callback pageSize)
                ([], None) w of
           (None, w') \<Rightarrow> None
         | (Some (Inr (records, nextOffset')), w') \<Rightarrow>
             Some (succeeded\<lparr>data := Some records, nextOffset := nextOffset'\<rparr>, w')
         | (Some (Inl err), w') \<Rightarrow>
             Some (failure (orElse (errMessage err) ''Failed to fetch paginated records''), w'))"

definition count_records ::
  "('s, 'f) remote \<Rightarrow> AirtableManager \<Rightarrow> string option \<Rightarrow> ('s, 'f) world
     \<Rightarrow> ('f AirtableRecord list response \<times> ('s, 'f) world) option" where
  "count_records R this filterByFormula' w =
     (let selectOptions =
            \<lparr>sel_maxRecords = None, sel_view = Some ''Grid view'', sel_sort = None,
             sel_filterByFormula =
               (case filterByFormula' of None \<Rightarrow> None | Some f \<Rightarrow> if f = [] then None else Some f),
             sel_offset = None, sel_fields = Some []\<rparr>
      in case selectEachPage R (table this) selectOptions
                (\<lambda>n records. Inr (n + length records, True)) 0 w of
           (None, w') \<Rightarrow> None
         | (Some (Inr n), w') \<Rightarrow> Some (succeeded\<lparr>count := Some n\<rparr>, w')
         | (Some (Inl err), w') \<Rightarrow>
             Some (failure (orElse (errMessage err) ''Failed to count records''), w'))"

subsection \<open>Specification-side notions\<close>

text \<open>
  The partition of a list into consecutive chunks of at most \<open>n\<close> elements, and the
  sequential issue of one call per chunk that stops at the first rejected call.
\<close>

function chunks :: "nat \<Rightarrow> 'a list \<Rightarrow> 'a list list" where
  "chunks n xs = (if n = 0 \<or> xs = [] then [] else take n xs # chunks n (drop n xs))"
  by pat_completeness auto
termination
  by (relation "measure (\<lambda>(n, xs). length xs)") auto

declare chunks.simps [simp del]

fun runBatches ::
  "('x list \<Rightarrow> 'w \<Rightarrow> (jserror + 'r) \<times> 'w) \<Rightarrow> ('a \<Rightarrow> 'x list \<Rightarrow> 'r \<Rightarrow> 'a)
     \<Rightarrow> 'x list list \<Rightarrow> 'a \<Rightarrow> 'w \<Rightarrow> (jserror + 'a) \<times> 'w" where
  "runBatches call step [] acc w = (Inr acc, w)"
| "runBatches call step (c # cs) acc w =
     (case call c w of
        (Inl err, w') \<Rightarrow> (Inl err, w')
      | (Inr r, w') \<Rightarrow> runBatches call step cs (step acc c r) w')"

text \<open>
  The two cases of the response envelope: a success envelope has a payload member and no
  \<open>error\<close>; a failure envelope has an \<open>error\<close> string and no payload member.
\<close>

definition payload :: "'d response \<Rightarrow> bool" where
  "payload r \<longleftrightarrow> data r \<noteq> None \<or> count r \<noteq> None \<or> nextOffset r \<noteq> None \<or> message r \<noteq> None
     \<or> deletedCount r \<noteq> None \<or> exists r \<noteq> None"

definition envelope :: "'d response \<Rightarrow> bool" where
  "envelope r \<longleftrightarrow> (if success r then payload r \<and> error r = None
                  else error r \<noteq> None \<and> \<not> payload r)"

text \<open>
  What the remote returned for the chunks of a bulk operation, the calls \<open>call\<close> issued one
  after the other from store \<open>s\<close>: the results of the calls before the first rejected
  one. Its length is the number of calls the remote accepted before it rejected one.
\<close>

fun batchResults ::
  "('x list \<Rightarrow> 's \<Rightarrow> (jserror + 'r) \<times> 's) \<Rightarrow> 'x list list \<Rightarrow> 's \<Rightarrow> 'r list" where
  "batchResults call [] s = []"
| "batchResults call (c # cs) s =
     (case call c s of
        (Inl err, s') \<Rightarrow> []
      | (Inr r, s') \<Rightarrow> r # batchResults call cs s')"

definition accepted ::
  "('x list \<Rightarrow> 's \<Rightarrow> (jserror + 'r) \<times> 's) \<Rightarrow> 'x list list \<Rightarrow> 's \<Rightarrow> nat" where
  "accepted call cs s = length (batchResults call cs s)"

text \<open>The contract of the remote creation call: one created record per input record.\<close>

definition createsOnePerInput :: "('s, 'f) remote \<Rightarrow> bool" where
  "createsOnePerInput R \<longleftrightarrow>
     (\<forall>t batch s. case fst (remoteCreate R t batch s) of
                    Inl err \<Rightarrow> True | Inr rs \<Rightarrow> length rs = length batch)"

text \<open>The first page of a listing, when its request did not fail.\<close>

fun firstPage :: "'f listing \<Rightarrow> 'f rawRecord list option" where
  "firstPage (ListFail e) = None"
| "firstPage (LastPage pageRecords) = Some pageRecords"
| "firstPage (MorePage pageRecords rest) = Some pageRecords"

subsection \<open>A concrete remote store for evaluation\<close>

text \<open>
  A small remote with a counter as its store: the identifier \<open>recMissing\<close> is unknown to
  it (status 404), \<open>recDenied\<close> is refused (status 403), and every listing has the two
  pages \<open>rec1, rec2\<close> and \<open>rec3\<close>.
\<close>

definition notFound :: jserror where
  "notFound = \<lparr>statusCode = Some 404, errMessage = Some ''NOT_FOUND''\<rparr>"

definition forbidden :: jserror where
  "forbidden = \<lparr>statusCode = Some 403, errMessage = Some ''NOT_AUTHORIZED''\<rparr>"

definition demoRecord :: "string \<Rightarrow> string rawRecord" where
  "demoRecord i = \<lparr>raw_id = i, raw_fields = ''Bob'', raw_createdTime = None\<rparr>"

definition demoRemote :: "(nat, string) remote" where
  "demoRemote =
     \<lparr>remoteCreate = (\<lambda>t batch s.
        (Inr (map (\<lambda>input. \<lparr>raw_id = ''recNew'', raw_fields = create_fields input,
                             raw_createdTime = None\<rparr>) batch), s + length batch)),
      remoteUpdate = (\<lambda>t batch s.
        if ''recMissing'' \<in> set (map update_id batch) then (Inl notFound, s)
        else (Inr (map (\<lambda>u. \<lparr>raw_id = update_id u, raw_fields = update_fields u,
                               raw_createdTime = None\<rparr>) batch), s)),
      remoteDestroy = (\<lambda>t ids s.
        if ''recMissing'' \<in> set ids then (Inl notFound, s)
        else (Inr (map demoRecord ids), s - length ids)),
      remoteFind = (\<lambda>t ident s.
        if ident = ''recMissing'' then (Inl notFound, s)
        else if ident = ''recDenied'' then (Inl forbidden, s)
        else (Inr (demoRecord ident), s)),
      remoteSelect = (\<lambda>t selectOptions s.
        MorePage [demoRecord ''rec1'', demoRecord ''rec2''] (LastPage [demoRecord ''rec3'']))\<rparr>"

text \<open>The same remote, refusing every creation call.\<close>

definition refusingRemote :: "(nat, string) remote" where
  "refusingRemote = demoRemote\<lparr>remoteCreate := (\<lambda>t batch s. (Inl forbidden, s))\<rparr>"

text \<open>The same remote, answering every creation call with no records.\<close>

definition silentRemote :: "(nat, string) remote" where
  "silentRemote = demoRemote\<lparr>remoteCreate := (\<lambda>t batch s. (Inr [], s))\<rparr>"

text \<open>The facade that \<open>new AirtableManager("key", "appBase", "People")\<close> constructs.\<close>

definition demoManager :: AirtableManager where
  "demoManager =
     \<lparr>config = \<lparr>apiKey = ''key'', baseId = ''appBase'', tableName = ''People''\<rparr>,
      base = ''appBase'', table = (''appBase'', ''People'')\<rparr>"

definition demoWorld :: "(nat, string) world" where
  "demoWorld = \<lparr>store = 0, calls = []\<rparr>"

definition demoRuntime :: "(nat, string) runtime" where
  "demoRuntime = \<lparr>numberToString = natToString, otherToString = (\<lambda>x. x)\<rparr>"

section \<open>Properties of the formula builder\<close>

lemma pushCondition_spec:
  "pushCondition T conditions e =
     conditions @ (if absent (snd e) then [] else [predicate_spec T e])"
  by (cases e; cases "snd e"; cases "\<exists>b. snd e = JBoolean b \<and> b")
     (auto simp: pushCondition_def)

lemma foldl_pushCondition:
  "foldl (pushCondition T) conditions filters =
     conditions @ map (predicate_spec T) (filter (\<lambda>e. \<not> absent (snd e)) filters)"
  by (induction filters arbitrary: conditions) (simp_all add: pushCondition_spec)

lemma join_concat: "join sep (p # ps) = p @ concat (map (\<lambda>q. sep @ q) ps)"
  by (induction sep "p # ps" arbitrary: p ps rule: join.induct) simp_all

lemma conjunction_spec_join:
  "conjunction_spec ps =
     (if length ps = 0 then [] else if length ps = 1 then ps ! 0
      else ''AND('' @ join '', '' ps @ '')'')"
proof (cases ps)
  case Nil
  then show ?thesis by simp
next
  case (Cons p qs)
  have sep: "map ((@) '', '') qs = map (\<lambda>q. CHR '','' # CHR '' '' # q) qs" for qs :: "string list"
    by (induction qs) simp_all
  from Cons show ?thesis by (cases qs) (simp_all add: join_concat sep)
qed

text \<open>
  C1. For every field-to-value mapping, \<open>buildFilterFormula\<close> equals the reference
  definition: absent values are skipped, each remaining entry yields the predicate of its
  value's type, and the predicates are returned as the empty string, unwrapped, or inside
  \<open>AND(...)\<close> in entry order, for zero, one, or several of them.
\<close>

theorem buildFilterFormula_refines_spec:
  "buildFilterFormula T filters = formula_spec T filters"
  unfolding buildFilterFormula_def formula_spec_def Let_def
  by (simp only: foldl_pushCondition append_Nil conjunction_spec_join)

theorem buildFilterFormula_refines_spec_witness:
  \<open>buildFilterFormula demoRuntime [(''name'', JString ''Bob'')] = ''SEARCH("Bob", {name}) > 0'' \<and>
   buildFilterFormula demoRuntime
     [(''name'', JString ''Bob''), (''city'', JString []), (''age'', JNumber 30),
      (''active'', JBoolean True), (''deleted'', JNull), (''tags'', JOther ''a,b'')] =
     ''AND(SEARCH("Bob", {name}) > 0, {age} = 30, {active} = TRUE(), {tags} = "a,b")'' \<and>
   buildFilterFormula demoRuntime [(''city'', JString []), (''deleted'', JUndefined)] = []\<close>
proof -
  have n: "natToString 30 = ''30''"
    by (simp add: natToString.simps)
  show ?thesis
    unfolding buildFilterFormula_refines_spec
    by (simp add: formula_spec_def demoRuntime_def n)
qed



section \<open>Properties of the bulk operations\<close>

text \<open>
  The index loop of the three bulk methods visits the chunks of its input: it is the run
  \<open>runBatches\<close> over \<open>chunks 10 input\<close>.
\<close>

lemma chunks_Nil: "chunks n [] = []"
  by (simp add: chunks.simps)

lemma chunks_step: "0 < n \<Longrightarrow> xs \<noteq> [] \<Longrightarrow> chunks n xs = take n xs # chunks n (drop n xs)"
  by (subst chunks.simps) simp

lemma concat_chunks: "0 < n \<Longrightarrow> concat (chunks n xs) = xs"
proof (induction n xs rule: chunks.induct)
  case (1 n xs)
  then show ?case by (cases "xs = []") (simp_all add: chunks_Nil chunks_step)
qed

lemma chunks_bounds: "c \<in> set (chunks n xs) \<Longrightarrow> c \<noteq> [] \<and> length c \<le> n"
proof (induction n xs rule: chunks.induct)
  case (1 n xs)
  show ?case
  proof (cases "n = 0 \<or> xs = []")
    case True
    with "1.prems" show ?thesis by (simp add: chunks.simps)
  next
    case False
    with "1.prems" have "c = take n xs \<or> c \<in> set (chunks n (drop n xs))"
      by (simp add: chunks_step)
    with False "1.IH" show ?thesis by auto
  qed
qed

lemma slice_batch: "slice xs i (i + n) = take n (drop i xs)"
  by (simp add: slice_def)

lemma batchLoop_runBatches:
  "batchLoop call step input i acc w = runBatches call step (chunks batchSize (drop i input)) acc w"
proof (induction call step input i acc w rule: batchLoop.induct)
  case (1 call step input i acc w)
  show ?case
  proof (cases "i < length input")
    case False
    then show ?thesis by (simp add: batchLoop.simps chunks_Nil)
  next
    case True
    then have ch: "chunks batchSize (drop i input) =
        take batchSize (drop i input) # chunks batchSize (drop (i + batchSize) input)"
      by (simp add: chunks_step batchSize_def add.commute)
    show ?thesis
    proof (cases "call (slice input i (i + batchSize)) w")
      case (Pair r w')
      show ?thesis
      proof (cases r)
        case (Inl e)
        with True Pair show ?thesis
          by (subst batchLoop.simps) (simp add: ch slice_batch)
      next
        case (Inr records)
        with True Pair "1.IH"[OF True refl Pair[symmetric] Inr] show ?thesis
          by (subst batchLoop.simps) (simp add: ch slice_batch)
      qed
    qed
  qed
qed


lemma runBatches_count:
  "runBatches call (\<lambda>n batch records. n + length batch) cs acc w = (Inr m, w')
     \<Longrightarrow> m = acc + length (concat cs)"
proof (induction cs arbitrary: acc w)
  case Nil
  then show ?case by simp
next
  case (Cons c cs)
  obtain r w1 where cw: "call c w = (r, w1)" by (cases "call c w")
  show ?case
  proof (cases r)
    case (Inl e)
    with cw Cons.prems show ?thesis by simp
  next
    case (Inr x)
    with cw Cons.prems
    have "runBatches call (\<lambda>n batch records. n + length batch) cs (acc + length c) w1 = (Inr m, w')"
      by simp
    from Cons.IH[OF this] show ?thesis by simp
  qed
qed


lemma batchResults_le: "length (batchResults rc cs s) \<le> length cs"
proof (induction cs arbitrary: s)
  case Nil
  show ?case by simp
next
  case (Cons c cs)
  obtain r s1 where "rc c s = (r, s1)" by (cases "rc c s")
  with Cons.IH[of s1] show ?case by (cases r) simp_all
qed

lemma batchResults_all:
  assumes "\<And>b s. \<not> isl (fst (rc b s))"
  shows "length (batchResults rc cs s) = length cs"
proof (induction cs arbitrary: s)
  case Nil
  show ?case by simp
next
  case (Cons c cs)
  obtain r s1 where rc: "rc c s = (r, s1)" by (cases "rc c s")
  with assms[of c s] obtain x where "r = Inr x" by (cases r) simp_all
  with rc Cons.IH[of s1] show ?case by simp
qed

text \<open>
  A run over chunks whose calls are logged requests: the requests sent are those of the
  chunks up to and including the first rejected one, and the run fails exactly when a
  call was rejected.
\<close>

lemma runBatches_logged:
  assumes call: "\<And>b w. call b w =
      (case rc b (store w) of (r, s') \<Rightarrow> (r, \<lparr>store = s', calls = calls w @ [mk b]\<rparr>))"
  shows "calls (snd (runBatches call step cs acc w)) =
           calls w @ map mk (take (Suc (accepted rc cs (store w))) cs) \<and>
         (isl (fst (runBatches call step cs acc w)) \<longleftrightarrow> accepted rc cs (store w) < length cs)"
proof (induction cs arbitrary: acc w)
  case Nil
  show ?case by (simp add: accepted_def)
next
  case (Cons c cs)
  obtain r s1 where rc: "rc c (store w) = (r, s1)" by (cases "rc c (store w)")
  let ?w1 = "\<lparr>store = s1, calls = calls w @ [mk c]\<rparr>"
  from rc have cw: "call c w = (r, ?w1)" by (simp add: call)
  show ?case
  proof (cases r)
    case (Inl e)
    with rc cw show ?thesis by (simp add: accepted_def)
  next
    case (Inr x)
    from Cons.IH[of "step acc c x" ?w1] rc cw Inr show ?thesis
      by (simp add: accepted_def)
  qed
qed

lemma runBatches_logged_result:
  assumes call: "\<And>b w. call b w =
      (case rc b (store w) of (r, s') \<Rightarrow> (r, \<lparr>store = s', calls = calls w @ [mk b]\<rparr>))"
    and res: "runBatches call step cs acc w = (r, w')"
  shows "calls w' = calls w @ map mk (take (Suc (accepted rc cs (store w))) cs) \<and>
         (\<not> isl r \<longleftrightarrow> accepted rc cs (store w) = length cs)"
proof -
  have "accepted rc cs (store w) \<le> length cs"
    by (simp add: accepted_def batchResults_le)
  with runBatches_logged[where call = call and rc = rc and mk = mk and step = step
      and cs = cs and acc = acc and w = w, OF call] res show ?thesis
    by auto
qed

lemma tableCreate_eq:
  "remoteCreate R t b (store w) = (r, s1)
     \<Longrightarrow> tableCreate R t b w = (r, \<lparr>store = s1, calls = calls w @ [CreateCall t b]\<rparr>)"
  by (simp add: tableCreate_def)

lemma runBatches_results:
  "runBatches (tableCreate R t) (\<lambda>results batch records. results @ map formatRecord records) cs acc w
       = (Inr results, w')
     \<Longrightarrow> results = acc @ map formatRecord (concat (batchResults (remoteCreate R t) cs (store w)))"
proof (induction cs arbitrary: acc w)
  case Nil
  then show ?case by simp
next
  case (Cons c cs)
  obtain r s1 where rc: "remoteCreate R t c (store w) = (r, s1)"
    by (cases "remoteCreate R t c (store w)")
  show ?case
  proof (cases r)
    case (Inl e)
    with rc Cons.prems show ?thesis by (simp add: tableCreate_eq)
  next
    case (Inr rs)
    let ?w1 = "\<lparr>store = s1, calls = calls w @ [CreateCall t c]\<rparr>"
    from rc Inr Cons.prems
    have "runBatches (tableCreate R t) (\<lambda>results batch records. results @ map formatRecord records)
            cs (acc @ map formatRecord rs) ?w1 = (Inr results, w')"
      by (simp add: tableCreate_eq)
    from Cons.IH[OF this] rc Inr show ?thesis by simp
  qed
qed

lemma runBatches_onePerInput:
  assumes one: "createsOnePerInput R"
  shows "runBatches (tableCreate R t) (\<lambda>results batch records. results @ map formatRecord records) cs acc w
       = (Inr results, w')
     \<Longrightarrow> length results = length acc + length (concat cs)"
proof (induction cs arbitrary: acc w)
  case Nil
  then show ?case by simp
next
  case (Cons c cs)
  obtain r s1 where rc: "remoteCreate R t c (store w) = (r, s1)"
    by (cases "remoteCreate R t c (store w)")
  show ?case
  proof (cases r)
    case (Inl e)
    with rc Cons.prems show ?thesis by (simp add: tableCreate_eq)
  next
    case (Inr rs)
    from one have "case fst (remoteCreate R t c (store w)) of Inl err \<Rightarrow> True | Inr rs \<Rightarrow> length rs = length c"
      unfolding createsOnePerInput_def by blast
    with rc Inr have len: "length rs = length c" by simp
    let ?w1 = "\<lparr>store = s1, calls = calls w @ [CreateCall t c]\<rparr>"
    from rc Inr Cons.prems
    have "runBatches (tableCreate R t) (\<lambda>results batch records. results @ map formatRecord records)
            cs (acc @ map formatRecord rs) ?w1 = (Inr results, w')"
      by (simp add: tableCreate_eq)
    from Cons.IH[OF this] len show ?thesis by simp
  qed
qed

lemma chunks_25: "length xs = 25 \<Longrightarrow> map length (chunks 10 xs) = [10, 10, 5]"
proof -
  assume len: "length xs = 25"
  have c3: "chunks 10 (drop 30 xs) = []"
    using len by (simp add: chunks_Nil)
  have c2: "chunks 10 (drop 20 xs) = [take 10 (drop 20 xs)]"
    using len c3 by (subst chunks_step) simp_all
  have c1: "chunks 10 (drop 10 xs) = [take 10 (drop 10 xs), take 10 (drop 20 xs)]"
    using len c2 by (subst chunks_step) simp_all
  have c0: "chunks 10 xs = [take 10 xs, take 10 (drop 10 xs), take 10 (drop 20 xs)]"
    using len c1 by (subst chunks_step) auto
  with len show ?thesis by simp
qed

text \<open>The three bulk methods as runs over the chunks of their input.\<close>

lemma bulkCreate_result:
  assumes rw: "runBatches (tableCreate R (table this))
             (\<lambda>results batch records. results @ map formatRecord records) (chunks 10 xs) [] w = (r, w')"
  shows "bulkCreate R this xs w =
     (case r of Inr results \<Rightarrow> (succeeded\<lparr>data := Some results, count := Some (length results)\<rparr>, w')
      | Inl err \<Rightarrow> (failure (orElse (errMessage err) ''Bulk create failed''), w'))"
  unfolding bulkCreate_def batchLoop_runBatches batchSize_def drop_0 rw by (cases r) simp_all

lemma bulkUpdate_result:
  assumes rw: "runBatches (tableUpdate R (table this))
             (\<lambda>results batch records. results @ map formatRecord records) (chunks 10 xs) [] w = (r, w')"
  shows "bulkUpdate R this xs w =
     (case r of Inr results \<Rightarrow> (succeeded\<lparr>data := Some results, count := Some (length results)\<rparr>, w')
      | Inl err \<Rightarrow> (failure (orElse (errMessage err) ''Bulk update failed''), w'))"
  unfolding bulkUpdate_def batchLoop_runBatches batchSize_def drop_0 rw by (cases r) simp_all

lemma bulkDelete_result:
  assumes rw: "runBatches (tableDestroy R (table this))
             (\<lambda>n batch records. n + length batch) (chunks 10 xs) 0 w = (r, w')"
  shows "bulkDelete R this xs w =
     (case r of Inr n \<Rightarrow> (succeeded\<lparr>deletedCount := Some n,
             message := Some (natToString n @ '' records deleted successfully'')\<rparr>, w')
      | Inl err \<Rightarrow> (failure (orElse (errMessage err) ''Bulk delete failed''), w'))"
  unfolding bulkDelete_def batchLoop_runBatches batchSize_def drop_0 rw by (cases r) simp_all


lemma bulkCreate_calls:
  "calls (snd (bulkCreate R this xs w)) =
     calls w @ map (CreateCall (table this))
       (take (Suc (accepted (remoteCreate R (table this)) (chunks 10 xs) (store w))) (chunks 10 xs)) \<and>
   (success (fst (bulkCreate R this xs w)) \<longleftrightarrow>
      accepted (remoteCreate R (table this)) (chunks 10 xs) (store w) = length (chunks 10 xs))"
proof -
  obtain r w' where rw: "runBatches (tableCreate R (table this))
             (\<lambda>results batch records. results @ map formatRecord records) (chunks 10 xs) [] w = (r, w')"
    by (cases "runBatches (tableCreate R (table this))
             (\<lambda>results batch records. results @ map formatRecord records) (chunks 10 xs) [] w")
  have s: "snd (bulkCreate R this xs w) = w'"
    unfolding bulkCreate_result[OF rw] by (cases r) simp_all
  have f: "success (fst (bulkCreate R this xs w)) \<longleftrightarrow> \<not> isl r"
    unfolding bulkCreate_result[OF rw] by (cases r) (simp_all add: succeeded_def failure_def)
  have "tableCreate R (table this) b v =
      (case remoteCreate R (table this) b (store v) of
         (r, s') \<Rightarrow> (r, \<lparr>store = s', calls = calls v @ [CreateCall (table this) b]\<rparr>))" for b v
    by (simp add: tableCreate_def)
  from runBatches_logged_result[where call = "tableCreate R (table this)"
      and rc = "remoteCreate R (table this)" and mk = "CreateCall (table this)", OF this rw]
  show ?thesis unfolding s f .
qed

lemma bulkUpdate_calls:
  "calls (snd (bulkUpdate R this xs w)) =
     calls w @ map (UpdateCall (table this))
       (take (Suc (accepted (remoteUpdate R (table this)) (chunks 10 xs) (store w))) (chunks 10 xs)) \<and>
   (success (fst (bulkUpdate R this xs w)) \<longleftrightarrow>
      accepted (remoteUpdate R (table this)) (chunks 10 xs) (store w) = length (chunks 10 xs))"
proof -
  obtain r w' where rw: "runBatches (tableUpdate R (table this))
             (\<lambda>results batch records. results @ map formatRecord records) (chunks 10 xs) [] w = (r, w')"
    by (cases "runBatches (tableUpdate R (table this))
             (\<lambda>results batch records. results @ map formatRecord records) (chunks 10 xs) [] w")
  have s: "snd (bulkUpdate R this xs w) = w'"
    unfolding bulkUpdate_result[OF rw] by (cases r) simp_all
  have f: "success (fst (bulkUpdate R this xs w)) \<longleftrightarrow> \<not> isl r"
    unfolding bulkUpdate_result[OF rw] by (cases r) (simp_all add: succeeded_def failure_def)
  have "tableUpdate R (table this) b v =
      (case remoteUpdate R (table this) b (store v) of
         (r, s') \<Rightarrow> (r, \<lparr>store = s', calls = calls v @ [UpdateCall (table this) b]\<rparr>))" for b v
    by (simp add: tableUpdate_def)
  from runBatches_logged_result[where call = "tableUpdate R (table this)"
      and rc = "remoteUpdate R (table this)" and mk = "UpdateCall (table this)", OF this rw]
  show ?thesis unfolding s f .
qed

lemma bulkDelete_calls:
  "calls (snd (bulkDelete R this xs w)) =
     calls w @ map (DestroyCall (table this))
       (take (Suc (accepted (remoteDestroy R (table this)) (chunks 10 xs) (store w))) (chunks 10 xs)) \<and>
   (success (fst (bulkDelete R this xs w)) \<longleftrightarrow>
      accepted (remoteDestroy R (table this)) (chunks 10 xs) (store w) = length (chunks 10 xs))"
proof -
  obtain r w' where rw: "runBatches (tableDestroy R (table this))
             (\<lambda>n batch records. n + length batch) (chunks 10 xs) 0 w = (r, w')"
    by (cases "runBatches (tableDestroy R (table this))
             (\<lambda>n batch records. n + length batch) (chunks 10 xs) 0 w")
  have s: "snd (bulkDelete R this xs w) = w'"
    unfolding bulkDelete_result[OF rw] by (cases r) simp_all
  have f: "success (fst (bulkDelete R this xs w)) \<longleftrightarrow> \<not> isl r"
    unfolding bulkDelete_result[OF rw] by (cases r) (simp_all add: succeeded_def failure_def)
  have "tableDestroy R (table this) b v =
      (case remoteDestroy R (table this) b (store v) of
         (r, s') \<Rightarrow> (r, \<lparr>store = s', calls = calls v @ [DestroyCall (table this) b]\<rparr>))" for b v
    by (simp add: tableDestroy_def)
  from runBatches_logged_result[where call = "tableDestroy R (table this)"
      and rc = "remoteDestroy R (table this)" and mk = "DestroyCall (table this)", OF this rw]
  show ?thesis unfolding s f .
qed

text \<open>When the remote rejects no call, every chunk is accepted.\<close>

lemma accepted_all:
  assumes "\<forall>batch s. \<not> isl (fst (rc batch s))"
  shows "accepted rc cs s = length cs"
  unfolding accepted_def using assms by (intro batchResults_all) blast

lemma bulkCreate_data:
  "(success (fst (bulkCreate R this xs w)) \<longrightarrow>
      data (fst (bulkCreate R this xs w)) =
        Some (map formatRecord (concat (batchResults (remoteCreate R (table this)) (chunks 10 xs) (store w)))) \<and>
      count (fst (bulkCreate R this xs w)) =
        Some (length (concat (batchResults (remoteCreate R (table this)) (chunks 10 xs) (store w)))) \<and>
      (createsOnePerInput R \<longrightarrow> count (fst (bulkCreate R this xs w)) = Some (length xs))) \<and>
   (\<not> success (fst (bulkCreate R this xs w)) \<longrightarrow>
      data (fst (bulkCreate R this xs w)) = None \<and> count (fst (bulkCreate R this xs w)) = None)"
proof -
  obtain r w' where rw: "runBatches (tableCreate R (table this))
             (\<lambda>results batch records. results @ map formatRecord records) (chunks 10 xs) [] w = (r, w')"
    by (cases "runBatches (tableCreate R (table this))
             (\<lambda>results batch records. results @ map formatRecord records) (chunks 10 xs) [] w")
  note b = bulkCreate_result[OF rw]
  show ?thesis
  proof (cases r)
    case (Inl e)
    show ?thesis unfolding b Inl by (simp add: failure_def)
  next
    case (Inr results)
    from runBatches_results[OF rw[unfolded Inr]]
    have res: "results =
        map formatRecord (concat (batchResults (remoteCreate R (table this)) (chunks 10 xs) (store w)))"
      by simp
    have one: "length results = length xs" if "createsOnePerInput R"
      using runBatches_onePerInput[OF that rw[unfolded Inr]] by (simp add: concat_chunks)
    from res one show ?thesis unfolding b Inr by (simp add: succeeded_def)
  qed
qed

text \<open>
  C2 (as amended). \<open>bulkCreate\<close>, \<open>bulkUpdate\<close> and \<open>bulkDelete\<close> partition their input
  into consecutive non-empty chunks of at most 10 elements and issue exactly one remote
  call per chunk, in input order and one after the other, up to and including the first
  call the remote rejects. The method succeeds exactly when no call was rejected, and then
  exactly one call per chunk was issued; a remote that rejects nothing makes it succeed.
  25 input records give chunks of sizes 10, 10 and 5. A successful \<open>bulkCreate\<close> returns
  the concatenation of all chunks' results with its length as \<open>count\<close>, which is the
  number of input records when the remote returns one record per input record; a failed
  one returns no records.
\<close>

theorem bulk_operations_chunked:
  fixes xs :: "'f CreateRecordInput list"
    and us :: "'f UpdateRecordInput list"
    and ids :: "string list"
    and R :: "('s, 'f) remote"
  shows
   "(concat (chunks 10 xs) = xs \<and> (\<forall>c\<in>set (chunks 10 xs). c \<noteq> [] \<and> length c \<le> 10)) \<and>
    (concat (chunks 10 us) = us \<and> (\<forall>c\<in>set (chunks 10 us). c \<noteq> [] \<and> length c \<le> 10)) \<and>
    (concat (chunks 10 ids) = ids \<and> (\<forall>c\<in>set (chunks 10 ids). c \<noteq> [] \<and> length c \<le> 10)) \<and>
    (calls (snd (bulkCreate R this xs w)) =
       calls w @ map (CreateCall (table this))
         (take (Suc (accepted (remoteCreate R (table this)) (chunks 10 xs) (store w))) (chunks 10 xs)) \<and>
     (success (fst (bulkCreate R this xs w)) \<longleftrightarrow>
        accepted (remoteCreate R (table this)) (chunks 10 xs) (store w) = length (chunks 10 xs))) \<and>
    (calls (snd (bulkUpdate R this us w)) =
       calls w @ map (UpdateCall (table this))
         (take (Suc (accepted (remoteUpdate R (table this)) (chunks 10 us) (store w))) (chunks 10 us)) \<and>
     (success (fst (bulkUpdate R this us w)) \<longleftrightarrow>
        accepted (remoteUpdate R (table this)) (chunks 10 us) (store w) = length (chunks 10 us))) \<and>
    (calls (snd (bulkDelete R this ids w)) =
       calls w @ map (DestroyCall (table this))
         (take (Suc (accepted (remoteDestroy R (table this)) (chunks 10 ids) (store w))) (chunks 10 ids)) \<and>
     (success (fst (bulkDelete R this ids w)) \<longleftrightarrow>
        accepted (remoteDestroy R (table this)) (chunks 10 ids) (store w) = length (chunks 10 ids))) \<and>
    ((\<forall>batch s. \<not> isl (fst (remoteCreate R (table this) batch s))) \<longrightarrow>
       success (fst (bulkCreate R this xs w)) \<and>
       calls (snd (bulkCreate R this xs w)) = calls w @ map (CreateCall (table this)) (chunks 10 xs)) \<and>
    ((\<forall>batch s. \<not> isl (fst (remoteUpdate R (table this) batch s))) \<longrightarrow>
       success (fst (bulkUpdate R this us w)) \<and>
       calls (snd (bulkUpdate R this us w)) = calls w @ map (UpdateCall (table this)) (chunks 10 us)) \<and>
    ((\<forall>batch s. \<not> isl (fst (remoteDestroy R (table this) batch s))) \<longrightarrow>
       success (fst (bulkDelete R this ids w)) \<and>
       calls (snd (bulkDelete R this ids w)) = calls w @ map (DestroyCall (table this)) (chunks 10 ids)) \<and>
    (length xs = 25 \<longrightarrow> map length (chunks 10 xs) = [10, 10, 5]) \<and>
    (success (fst (bulkCreate R this xs w)) \<longrightarrow>
       data (fst (bulkCreate R this xs w)) =
         Some (map formatRecord
                (concat (batchResults (remoteCreate R (table this)) (chunks 10 xs) (store w)))) \<and>
       count (fst (bulkCreate R this xs w)) =
         Some (length (concat (batchResults (remoteCreate R (table this)) (chunks 10 xs) (store w)))) \<and>
       (createsOnePerInput R \<longrightarrow> count (fst (bulkCreate R this xs w)) = Some (length xs))) \<and>
    (\<not> success (fst (bulkCreate R this xs w)) \<longrightarrow>
       data (fst (bulkCreate R this xs w)) = None \<and> count (fst (bulkCreate R this xs w)) = None)"
proof -
  have part: "concat (chunks 10 zs) = zs \<and> (\<forall>c\<in>set (chunks 10 zs). c \<noteq> [] \<and> length c \<le> 10)"
    for zs :: "'z list"
    by (simp add: concat_chunks chunks_bounds)
  have allC: "success (fst (bulkCreate R this xs w)) \<and>
       calls (snd (bulkCreate R this xs w)) = calls w @ map (CreateCall (table this)) (chunks 10 xs)"
    if "\<forall>batch s. \<not> isl (fst (remoteCreate R (table this) batch s))"
    using bulkCreate_calls[of R this xs w] accepted_all[OF that, of "chunks 10 xs" "store w"]
    by simp
  have allU: "success (fst (bulkUpdate R this us w)) \<and>
       calls (snd (bulkUpdate R this us w)) = calls w @ map (UpdateCall (table this)) (chunks 10 us)"
    if "\<forall>batch s. \<not> isl (fst (remoteUpdate R (table this) batch s))"
    using bulkUpdate_calls[of R this us w] accepted_all[OF that, of "chunks 10 us" "store w"]
    by simp
  have allD: "success (fst (bulkDelete R this ids w)) \<and>
       calls (snd (bulkDelete R this ids w)) = calls w @ map (DestroyCall (table this)) (chunks 10 ids)"
    if "\<forall>batch s. \<not> isl (fst (remoteDestroy R (table this) batch s))"
    using bulkDelete_calls[of R this ids w] accepted_all[OF that, of "chunks 10 ids" "store w"]
    by simp
  have sizes: "length xs = 25 \<longrightarrow> map length (chunks 10 xs) = [10, 10, 5]"
    by (simp add: chunks_25)
  note d = bulkCreate_data[of R this xs w]
  show ?thesis
    apply (intro conjI)
    using part[of xs] part[of us] part[of ids] apply (blast, blast, blast, blast, blast, blast)
    using bulkCreate_calls[of R this xs w] apply (blast, blast)
    using bulkUpdate_calls[of R this us w] apply (blast, blast)
    using bulkDelete_calls[of R this ids w] apply (blast, blast)
    using allC apply blast
    using allU apply blast
    using allD apply blast
    using sizes apply blast
    using d apply blast
    using d apply blast
    done
qed

theorem bulk_operations_chunked_witness:
  "calls (snd (bulkCreate demoRemote demoManager (replicate 25 \<lparr>create_fields = ''Bob''\<rparr>) demoWorld)) =
     [CreateCall (''appBase'', ''People'') (replicate 10 \<lparr>create_fields = ''Bob''\<rparr>),
      CreateCall (''appBase'', ''People'') (replicate 10 \<lparr>create_fields = ''Bob''\<rparr>),
      CreateCall (''appBase'', ''People'') (replicate 5 \<lparr>create_fields = ''Bob''\<rparr>)] \<and>
   success (fst (bulkCreate demoRemote demoManager (replicate 25 \<lparr>create_fields = ''Bob''\<rparr>) demoWorld)) \<and>
   count (fst (bulkCreate demoRemote demoManager (replicate 25 \<lparr>create_fields = ''Bob''\<rparr>) demoWorld)) = Some 25 \<and>
   map length (chunks 10 (replicate 25 \<lparr>create_fields = ''Bob''\<rparr>)) = [10, 10, 5]"
proof -
  let ?xs = "replicate 25 \<lparr>create_fields = ''Bob''\<rparr>"
  let ?b = "bulkCreate demoRemote demoManager ?xs demoWorld"
  have ch: "chunks 10 ?xs = [replicate 10 \<lparr>create_fields = ''Bob''\<rparr>,
      replicate 10 \<lparr>create_fields = ''Bob''\<rparr>, replicate 5 \<lparr>create_fields = ''Bob''\<rparr>]"
    by (simp add: chunks.simps)
  have acc: "\<forall>batch s. \<not> isl (fst (remoteCreate demoRemote (table demoManager) batch s))"
    by (simp add: demoRemote_def)
  have one: "createsOnePerInput demoRemote"
    by (simp add: createsOnePerInput_def demoRemote_def)
  have tb: "table demoManager = (''appBase'', ''People'')"
    by (simp add: demoManager_def)
  have cw: "calls demoWorld = []" by (simp add: demoWorld_def)
  note inst = bulk_operations_chunked[where xs = ?xs and us = "[]" and ids = "[]"
      and R = demoRemote and this = demoManager and w = demoWorld]
  from inst acc have ok: "success (fst ?b)"
    and c: "calls (snd ?b) = calls demoWorld @ map (CreateCall (table demoManager)) (chunks 10 ?xs)"
    by blast+
  from inst ok one have n: "count (fst ?b) = Some (length ?xs)" by blast
  from inst have l: "map length (chunks 10 ?xs) = [10, 10, 5]" by simp
  from c n l ok show ?thesis by (simp add: ch tb cw)
qed

text \<open>
  C2 as stated fails in two ways. Against a remote that refuses the first creation call,
  \<open>bulkCreate\<close> on 25 records issues one call, not three. Against a remote that accepts
  every call and returns no records, it succeeds after three calls with \<open>count\<close> 0, not
  25.
\<close>

theorem bulkCreate_counterexample:
  "length (replicate 25 \<lparr>create_fields = ''Bob''\<rparr>) = 25 \<and>
   calls (snd (bulkCreate refusingRemote demoManager (replicate 25 \<lparr>create_fields = ''Bob''\<rparr>) demoWorld)) =
     [CreateCall (''appBase'', ''People'') (replicate 10 \<lparr>create_fields = ''Bob''\<rparr>)] \<and>
   fst (bulkCreate refusingRemote demoManager (replicate 25 \<lparr>create_fields = ''Bob''\<rparr>) demoWorld) =
     failure ''NOT_AUTHORIZED'' \<and>
   length (calls (snd (bulkCreate silentRemote demoManager
     (replicate 25 \<lparr>create_fields = ''Bob''\<rparr>) demoWorld))) = 3 \<and>
   fst (bulkCreate silentRemote demoManager (replicate 25 \<lparr>create_fields = ''Bob''\<rparr>) demoWorld) =
     succeeded\<lparr>data := Some [], count := Some 0\<rparr>"
  by (simp add: bulkCreate_def batchLoop.simps slice_def batchSize_def tableCreate_def
      refusingRemote_def silentRemote_def demoRemote_def demoWorld_def demoManager_def
      forbidden_def orElse_def Let_def)

section \<open>Properties of the single-record operations\<close>

lemma tableFind_eq:
  "remoteFind R t i (store w) = (r, s1)
     \<Longrightarrow> tableFind R t i w = (r, \<lparr>store = s1, calls = calls w @ [FindCall t i]\<rparr>)"
  by (simp add: tableFind_def)

lemma tableUpdate_eq:
  "remoteUpdate R t b (store w) = (r, s1)
     \<Longrightarrow> tableUpdate R t b w = (r, \<lparr>store = s1, calls = calls w @ [UpdateCall t b]\<rparr>)"
  by (simp add: tableUpdate_def)

lemma tableDestroy_eq:
  "remoteDestroy R t b (store w) = (r, s1)
     \<Longrightarrow> tableDestroy R t b w = (r, \<lparr>store = s1, calls = calls w @ [DestroyCall t b]\<rparr>)"
  by (simp add: tableDestroy_def)

lemma update_input_copy:
  "\<lparr>update_id = update_id input, update_fields = update_fields input\<rparr> = (input :: 'f UpdateRecordInput)"
  by (cases input) simp

text \<open>
  C3. When the remote rejects the call of \<open>getById\<close>, \<open>update\<close> or \<open>delete\<close> with status
  404, the envelope is a failure whose error is exactly \<open>Record not found\<close>, whatever the
  remote's message; for any other rejection the error is the remote's message, or the
  fallback string of the operation when the message is missing or empty.
\<close>

theorem not_found_normalized:
  "(remoteFind R (table this) ident (store w) = (Inl e, s') \<longrightarrow>
      \<not> success (fst (getById R this ident w)) \<and>
      data (fst (getById R this ident w)) = None \<and>
      error (fst (getById R this ident w)) =
        Some (if statusCode e = Some 404 then ''Record not found''
              else case errMessage e of
                     None \<Rightarrow> ''Failed to fetch record''
                   | Some m \<Rightarrow> if m = [] then ''Failed to fetch record'' else m)) \<and>
   (remoteUpdate R (table this) [input] (store w) = (Inl e, s') \<longrightarrow>
      \<not> success (fst (update R this input w)) \<and>
      data (fst (update R this input w)) = None \<and>
      error (fst (update R this input w)) =
        Some (if statusCode e = Some 404 then ''Record not found''
              else case errMessage e of
                     None \<Rightarrow> ''Failed to update record''
                   | Some m \<Rightarrow> if m = [] then ''Failed to update record'' else m)) \<and>
   (remoteDestroy R (table this) [ident] (store w) = (Inl e, s') \<longrightarrow>
      \<not> success (fst (delete R this ident w)) \<and>
      message (fst (delete R this ident w)) = None \<and>
      error (fst (delete R this ident w)) =
        Some (if statusCode e = Some 404 then ''Record not found''
              else case errMessage e of
                     None \<Rightarrow> ''Failed to delete record''
                   | Some m \<Rightarrow> if m = [] then ''Failed to delete record'' else m))"
proof (intro conjI impI)
  assume "remoteFind R (table this) ident (store w) = (Inl e, s')"
  from tableFind_eq[OF this]
  have g: "fst (getById R this ident w) =
      failure (if statusCode e = Some 404 then ''Record not found''
               else orElse (errMessage e) ''Failed to fetch record'')"
    by (simp add: getById_def)
  show "\<not> success (fst (getById R this ident w))"
    and "data (fst (getById R this ident w)) = None"
    and "error (fst (getById R this ident w)) =
        Some (if statusCode e = Some 404 then ''Record not found''
              else case errMessage e of
                     None \<Rightarrow> ''Failed to fetch record''
                   | Some m \<Rightarrow> if m = [] then ''Failed to fetch record'' else m)"
    unfolding g by (simp_all add: failure_def orElse_def)
next
  assume "remoteUpdate R (table this) [input] (store w) = (Inl e, s')"
  from tableUpdate_eq[OF this]
  have g: "fst (update R this input w) =
      failure (if statusCode e = Some 404 then ''Record not found''
               else orElse (errMessage e) ''Failed to update record'')"
    by (simp add: update_def update_input_copy)
  show "\<not> success (fst (update R this input w))"
    and "data (fst (update R this input w)) = None"
    and "error (fst (update R this input w)) =
        Some (if statusCode e = Some 404 then ''Record not found''
              else case errMessage e of
                     None \<Rightarrow> ''Failed to update record''
                   | Some m \<Rightarrow> if m = [] then ''Failed to update record'' else m)"
    unfolding g by (simp_all add: failure_def orElse_def)
next
  assume "remoteDestroy R (table this) [ident] (store w) = (Inl e, s')"
  from tableDestroy_eq[OF this]
  have g: "fst (delete R this ident w) =
      failure (if statusCode e = Some 404 then ''Record not found''
               else orElse (errMessage e) ''Failed to delete record'')"
    by (simp add: delete_def)
  show "\<not> success (fst (delete R this ident w))"
    and "message (fst (delete R this ident w)) = None"
    and "error (fst (delete R this ident w)) =
        Some (if statusCode e = Some 404 then ''Record not found''
              else case errMessage e of
                     None \<Rightarrow> ''Failed to delete record''
                   | Some m \<Rightarrow> if m = [] then ''Failed to delete record'' else m)"
    unfolding g by (simp_all add: failure_def orElse_def)
qed

theorem not_found_normalized_witness:
  "remoteFind demoRemote (table demoManager) ''recMissing'' (store demoWorld) = (Inl notFound, 0) \<and>
   errMessage notFound = Some ''NOT_FOUND'' \<and>
   error (fst (getById demoRemote demoManager ''recMissing'' demoWorld)) = Some ''Record not found'' \<and>
   error (fst (update demoRemote demoManager
                 \<lparr>update_id = ''recMissing'', update_fields = ''Bob''\<rparr> demoWorld)) =
     Some ''Record not found'' \<and>
   error (fst (delete demoRemote demoManager ''recMissing'' demoWorld)) = Some ''Record not found''"
proof -
  have f: "remoteFind demoRemote (table demoManager) ''recMissing'' (store demoWorld) = (Inl notFound, 0)"
    by (simp add: demoRemote_def demoWorld_def)
  have u: "remoteUpdate demoRemote (table demoManager)
             [\<lparr>update_id = ''recMissing'', update_fields = ''Bob''\<rparr>] (store demoWorld) = (Inl notFound, 0)"
    by (simp add: demoRemote_def demoWorld_def)
  have d: "remoteDestroy demoRemote (table demoManager) [''recMissing''] (store demoWorld) = (Inl notFound, 0)"
    by (simp add: demoRemote_def demoWorld_def)
  have s: "statusCode notFound = Some 404" "errMessage notFound = Some ''NOT_FOUND''"
    by (simp_all add: notFound_def)
  from f u d s
    not_found_normalized[where R = demoRemote and this = demoManager and ident = "''recMissing''"
      and w = demoWorld and e = notFound and s' = 0
      and input = "\<lparr>update_id = ''recMissing'', update_fields = ''Bob''\<rparr>"]
  show ?thesis by simp
qed

text \<open>
  C4. \<open>exists\<close> returns \<open>{success: true, exists: true}\<close> when the fetch succeeds,
  \<open>{success: true, exists: false}\<close> when the remote rejects it with status 404, and a
  failure envelope with an error for every other rejection.
\<close>

theorem exists_outcomes:
  "(remoteFind R (table this) ident (store w) = (Inr found, s') \<longrightarrow>
      fst (exists_record R this ident w) =
        \<lparr>success = True, data = None, count = None, nextOffset = None, message = None,
         deletedCount = None, exists = Some True, error = None\<rparr>) \<and>
   (remoteFind R (table this) ident (store w) = (Inl e, s') \<and> statusCode e = Some 404 \<longrightarrow>
      fst (exists_record R this ident w) =
        \<lparr>success = True, data = None, count = None, nextOffset = None, message = None,
         deletedCount = None, exists = Some False, error = None\<rparr>) \<and>
   (remoteFind R (table this) ident (store w) = (Inl e, s') \<and> statusCode e \<noteq> Some 404 \<longrightarrow>
      fst (exists_record R this ident w) =
        \<lparr>success = False, data = None, count = None, nextOffset = None, message = None,
         deletedCount = None, exists = None,
         error = Some (case errMessage e of
                         None \<Rightarrow> ''Failed to check record existence''
                       | Some m \<Rightarrow> if m = [] then ''Failed to check record existence'' else m)\<rparr>)"
proof (intro conjI impI)
  assume "remoteFind R (table this) ident (store w) = (Inr found, s')"
  from tableFind_eq[OF this]
  show "fst (exists_record R this ident w) =
        \<lparr>success = True, data = None, count = None, nextOffset = None, message = None,
         deletedCount = None, exists = Some True, error = None\<rparr>"
    by (simp add: exists_record_def succeeded_def)
next
  assume "remoteFind R (table this) ident (store w) = (Inl e, s') \<and> statusCode e = Some 404"
  then have a: "remoteFind R (table this) ident (store w) = (Inl e, s')"
    and b: "statusCode e = Some 404" by simp_all
  from tableFind_eq[OF a] b
  show "fst (exists_record R this ident w) =
        \<lparr>success = True, data = None, count = None, nextOffset = None, message = None,
         deletedCount = None, exists = Some False, error = None\<rparr>"
    by (simp add: exists_record_def succeeded_def)
next
  assume "remoteFind R (table this) ident (store w) = (Inl e, s') \<and> statusCode e \<noteq> Some 404"
  then have a: "remoteFind R (table this) ident (store w) = (Inl e, s')"
    and b: "statusCode e \<noteq> Some 404" by simp_all
  from tableFind_eq[OF a] b
  show "fst (exists_record R this ident w) =
        \<lparr>success = False, data = None, count = None, nextOffset = None, message = None,
         deletedCount = None, exists = None,
         error = Some (case errMessage e of
                         None \<Rightarrow> ''Failed to check record existence''
                       | Some m \<Rightarrow> if m = [] then ''Failed to check record existence'' else m)\<rparr>"
    by (simp add: exists_record_def failure_def orElse_def)
qed

theorem exists_outcomes_witness:
  "success (fst (exists_record demoRemote demoManager ''rec1'' demoWorld)) \<and>
   exists (fst (exists_record demoRemote demoManager ''rec1'' demoWorld)) = Some True \<and>
   success (fst (exists_record demoRemote demoManager ''recMissing'' demoWorld)) \<and>
   exists (fst (exists_record demoRemote demoManager ''recMissing'' demoWorld)) = Some False \<and>
   error (fst (exists_record demoRemote demoManager ''recMissing'' demoWorld)) = None \<and>
   \<not> success (fst (exists_record demoRemote demoManager ''recDenied'' demoWorld)) \<and>
   error (fst (exists_record demoRemote demoManager ''recDenied'' demoWorld)) = Some ''NOT_AUTHORIZED''"
proof -
  have a: "remoteFind demoRemote (table demoManager) ''rec1'' (store demoWorld) = (Inr (demoRecord ''rec1''), 0)"
    by (simp add: demoRemote_def demoWorld_def)
  have b: "remoteFind demoRemote (table demoManager) ''recMissing'' (store demoWorld) = (Inl notFound, 0)"
    by (simp add: demoRemote_def demoWorld_def)
  have c: "remoteFind demoRemote (table demoManager) ''recDenied'' (store demoWorld) = (Inl forbidden, 0)"
    by (simp add: demoRemote_def demoWorld_def)
  have s: "statusCode notFound = Some 404" "statusCode forbidden \<noteq> Some 404"
    "errMessage forbidden = Some ''NOT_AUTHORIZED''"
    by (simp_all add: notFound_def forbidden_def)
  from a s
    exists_outcomes[where R = demoRemote and this = demoManager and ident = "''rec1''"
      and w = demoWorld and found = "demoRecord ''rec1''" and s' = 0]
  have 1: "success (fst (exists_record demoRemote demoManager ''rec1'' demoWorld)) \<and>
     exists (fst (exists_record demoRemote demoManager ''rec1'' demoWorld)) = Some True"
    by simp
  from b s
    exists_outcomes[where R = demoRemote and this = demoManager and ident = "''recMissing''"
      and w = demoWorld and e = notFound and s' = 0]
  have 2: "success (fst (exists_record demoRemote demoManager ''recMissing'' demoWorld)) \<and>
     exists (fst (exists_record demoRemote demoManager ''recMissing'' demoWorld)) = Some False \<and>
     error (fst (exists_record demoRemote demoManager ''recMissing'' demoWorld)) = None"
    by simp
  from c s
    exists_outcomes[where R = demoRemote and this = demoManager and ident = "''recDenied''"
      and w = demoWorld and e = forbidden and s' = 0]
  have 3: "\<not> success (fst (exists_record demoRemote demoManager ''recDenied'' demoWorld)) \<and>
     error (fst (exists_record demoRemote demoManager ''recDenied'' demoWorld)) = Some ''NOT_AUTHORIZED''"
    by simp
  from 1 2 3 show ?thesis by simp
qed



section \<open>Properties of the configuration and of the listing operations\<close>

text \<open>
  C10. When \<open>bulkDelete\<close> succeeds, \<open>deletedCount\<close> is the length of the input list, for
  every remote and whatever its destroy calls returned, and the message carries the same
  number.
\<close>

theorem bulkDelete_deletedCount:
  assumes "success (fst (bulkDelete R this ids w))"
  shows "deletedCount (fst (bulkDelete R this ids w)) = Some (length ids) \<and>
         message (fst (bulkDelete R this ids w)) =
           Some (natToString (length ids) @ '' records deleted successfully'')"
proof -
  obtain r w' where rw: "runBatches (tableDestroy R (table this))
             (\<lambda>n batch records. n + length batch) (chunks 10 ids) 0 w = (r, w')"
    by (cases "runBatches (tableDestroy R (table this))
             (\<lambda>n batch records. n + length batch) (chunks 10 ids) 0 w")
  note b = bulkDelete_result[OF rw]
  from assms obtain n where r: "r = Inr n"
    unfolding b by (cases r) (simp_all add: failure_def)
  from runBatches_count[OF rw[unfolded r]] have "n = length ids"
    by (simp add: concat_chunks)
  then show ?thesis unfolding b r by (simp add: succeeded_def)
qed

theorem bulkDelete_deletedCount_witness:
  "success (fst (bulkDelete demoRemote demoManager (replicate 12 ''rec1'') demoWorld)) \<and>
   deletedCount (fst (bulkDelete demoRemote demoManager (replicate 12 ''rec1'') demoWorld)) = Some 12 \<and>
   message (fst (bulkDelete demoRemote demoManager (replicate 12 ''rec1'') demoWorld)) =
     Some ''12 records deleted successfully''"
proof -
  have ok: "success (fst (bulkDelete demoRemote demoManager (replicate 12 ''rec1'') demoWorld))"
    by (simp add: bulkDelete_def batchLoop.simps slice_def batchSize_def tableDestroy_def
        demoRemote_def demoWorld_def succeeded_def Let_def)
  have n: "natToString 12 = ''12''"
    by (simp add: natToString.simps)
  from bulkDelete_deletedCount[OF ok] ok n show ?thesis by simp
qed

text \<open>
  C8. \<open>switchTable\<close> changes the active table and nothing else: afterwards \<open>getConfig\<close>
  reports the new table name with the \<open>apiKey\<close> and \<open>baseId\<close> given to the constructor
  (also after any number of switches), the base is the same, the table handle is the one
  of the new name (for the empty name the library throws and the handle stays), and the
  world is the same: no request was sent and the store is untouched.
\<close>

theorem switchTable_frame:
  "(case switchTable name this w of
      (thrown, this', w') \<Rightarrow>
        getConfig this' = (getConfig this)\<lparr>tableName := name\<rparr> \<and>
        apiKey (getConfig this') = apiKey (getConfig this) \<and>
        baseId (getConfig this') = baseId (getConfig this) \<and>
        tableName (getConfig this') = name \<and>
        base this' = base this \<and>
        table this' = (if name = [] then table this else (base this, name)) \<and>
        thrown = (if name = [] then Some tableNameRequired else None) \<and>
        w' = w \<and> calls w' = calls w \<and> store w' = store w) \<and>
   (newAirtableManager k b t = Inr m \<longrightarrow>
      getConfig m = \<lparr>apiKey = k, baseId = b, tableName = t\<rparr> \<and>
      getConfig (fst (snd (switchTable name m w))) = \<lparr>apiKey = k, baseId = b, tableName = name\<rparr> \<and>
      getConfig (foldl (\<lambda>m n. fst (snd (switchTable n m w))) m names) =
        \<lparr>apiKey = k, baseId = b, tableName = last (t # names)\<rparr>)"
proof -
  have step: "getConfig (fst (snd (switchTable n m' v))) = (getConfig m')\<lparr>tableName := n\<rparr>"
    for n m' and v :: "('s, 'f) world"
    by (simp add: getConfig_def switchTable_def libraryTable_def Let_def)
  have new: "getConfig m = \<lparr>apiKey = k, baseId = b, tableName = t\<rparr>"
    if "newAirtableManager k b t = Inr m"
    using that
    by (auto simp: getConfig_def newAirtableManager_def Let_def split: sum.splits)
  have many: "getConfig m' = \<lparr>apiKey = k, baseId = b, tableName = t'\<rparr> \<Longrightarrow>
      getConfig (foldl (\<lambda>m n. fst (snd (switchTable n m w))) m' names) =
        \<lparr>apiKey = k, baseId = b, tableName = last (t' # names)\<rparr>" for m' t'
    by (induction names arbitrary: m' t') (simp_all add: step)
  have one: "case switchTable name this w of
      (thrown, this', w') \<Rightarrow>
        getConfig this' = (getConfig this)\<lparr>tableName := name\<rparr> \<and>
        apiKey (getConfig this') = apiKey (getConfig this) \<and>
        baseId (getConfig this') = baseId (getConfig this) \<and>
        tableName (getConfig this') = name \<and>
        base this' = base this \<and>
        table this' = (if name = [] then table this else (base this, name)) \<and>
        thrown = (if name = [] then Some tableNameRequired else None) \<and>
        w' = w \<and> calls w' = calls w \<and> store w' = store w"
    by (simp add: getConfig_def switchTable_def libraryTable_def Let_def)
  have sw: "getConfig (fst (snd (switchTable name m w))) =
      \<lparr>apiKey = k, baseId = b, tableName = name\<rparr>"
    if "newAirtableManager k b t = Inr m"
    using step[of name m w] new[OF that] by simp
  have all: "getConfig (foldl (\<lambda>m n. fst (snd (switchTable n m w))) m names) =
      \<lparr>apiKey = k, baseId = b, tableName = last (t # names)\<rparr>"
    if "newAirtableManager k b t = Inr m"
    using many[OF new[OF that]] .
  from one new sw all show ?thesis by blast
qed

theorem switchTable_frame_witness:
  "newAirtableManager ''key'' ''appBase'' ''People'' = Inr demoManager \<and>
   switchTable ''Orders'' demoManager demoWorld =
     (None,
      \<lparr>config = \<lparr>apiKey = ''key'', baseId = ''appBase'', tableName = ''Orders''\<rparr>,
       base = ''appBase'', table = (''appBase'', ''Orders'')\<rparr>,
      demoWorld) \<and>
   switchTable [] demoManager demoWorld =
     (Some tableNameRequired,
      \<lparr>config = \<lparr>apiKey = ''key'', baseId = ''appBase'', tableName = []\<rparr>,
       base = ''appBase'', table = (''appBase'', ''People'')\<rparr>,
      demoWorld) \<and>
   getConfig (fst (snd (switchTable ''Orders'' demoManager demoWorld))) =
     \<lparr>apiKey = ''key'', baseId = ''appBase'', tableName = ''Orders''\<rparr> \<and>
   getConfig (foldl (\<lambda>m n. fst (snd (switchTable n m demoWorld))) demoManager [''Orders'', ''Stock'']) =
     \<lparr>apiKey = ''key'', baseId = ''appBase'', tableName = ''Stock''\<rparr>"
proof -
  have n: "newAirtableManager ''key'' ''appBase'' ''People'' = Inr demoManager"
    by (simp add: newAirtableManager_def libraryBase_def libraryTable_def demoManager_def Let_def)
  have a: "switchTable ''Orders'' demoManager demoWorld =
     (None,
      \<lparr>config = \<lparr>apiKey = ''key'', baseId = ''appBase'', tableName = ''Orders''\<rparr>,
       base = ''appBase'', table = (''appBase'', ''Orders'')\<rparr>,
      demoWorld)"
    by (simp add: switchTable_def libraryTable_def demoManager_def Let_def)
  have e: "switchTable [] demoManager demoWorld =
     (Some tableNameRequired,
      \<lparr>config = \<lparr>apiKey = ''key'', baseId = ''appBase'', tableName = []\<rparr>,
       base = ''appBase'', table = (''appBase'', ''People'')\<rparr>,
      demoWorld)"
    by (simp add: switchTable_def libraryTable_def demoManager_def Let_def)
  from switchTable_frame[where k = "''key''" and b = "''appBase''" and t = "''People''"
      and m = demoManager and name = "''Orders''" and w = demoWorld
      and names = "[''Orders'', ''Stock'']", THEN conjunct2] n
  have "getConfig (fst (snd (switchTable ''Orders'' demoManager demoWorld))) =
     \<lparr>apiKey = ''key'', baseId = ''appBase'', tableName = ''Orders''\<rparr> \<and>
     getConfig (foldl (\<lambda>m n. fst (snd (switchTable n m demoWorld))) demoManager [''Orders'', ''Stock'']) =
     \<lparr>apiKey = ''key'', baseId = ''appBase'', tableName = ''Stock''\<rparr>"
    by simp
  with n a e show ?thesis by simp
qed

lemma eachPage_log:
  "\<exists>n. snd (eachPage callback c l acc log) = log @ replicate (Suc n) c"
proof (induction l arbitrary: acc log)
  case (ListFail e)
  show ?case by (intro exI[of _ 0]) simp
next
  case (LastPage pageRecords)
  show ?case by (intro exI[of _ 0]) (simp split: sum.splits prod.splits)
next
  case (MorePage pageRecords rest)
  show ?case
  proof (cases "callback acc pageRecords")
    case (Inl e)
    then show ?thesis by (intro exI[of _ 0]) simp
  next
    case (Inr p)
    obtain acc' fetchNextPage where p: "p = (acc', fetchNextPage)" by (cases p)
    show ?thesis
    proof (cases fetchNextPage)
      case False
      with Inr p show ?thesis by (intro exI[of _ 0]) simp
    next
      case True
      from MorePage.IH[of acc' "log @ [c]"] obtain n where
        "snd (eachPage callback c rest acc' (log @ [c])) = (log @ [c]) @ replicate (Suc n) c" ..
      with Inr p True show ?thesis
        by (intro exI[of _ "Suc n"]) (simp add: replicate_app_Cons_same)
    qed
  qed
qed

lemma eachPage_advancing:
  "\<exists>r. fst (eachPage (\<lambda>acc pageRecords. Inr (f acc pageRecords, True)) c l acc log) = Some r"
  by (induction l arbitrary: acc log) simp_all

lemma getAll_valid: "selectValidation (getAll_selectOptions options) = None"
  by (simp add: selectValidation_def getAll_selectOptions_def)

lemma getAll_returns:
  "\<exists>r w' n. getAll R this options w = Some (r, w') \<and> store w' = store w \<and>
     calls w' = calls w @ replicate (Suc n) (PageCall (table this) (getAll_selectOptions options))"
proof -
  let ?cb = "\<lambda>records pageRecords. Inr (records @ map formatRecord pageRecords, True)"
  let ?c = "PageCall (table this) (getAll_selectOptions options)"
  let ?l = "remoteSelect R (table this) (getAll_selectOptions options) (store w)"
  obtain x log where e: "eachPage ?cb ?c ?l [] (calls w) = (x, log)"
    by (cases "eachPage ?cb ?c ?l [] (calls w)")
  from eachPage_advancing[of "\<lambda>records pageRecords. records @ map formatRecord pageRecords" ?c ?l "[]" "calls w"] e
  obtain r where x: "x = Some r" by auto
  from eachPage_log[of ?cb ?c ?l "[]" "calls w"] e
  obtain n where n: "log = calls w @ replicate (Suc n) ?c" by auto
  from e x n show ?thesis
    by (cases r) (simp_all add: getAll_def selectEachPage_def getAll_valid)
qed

text \<open>
  C9. \<open>getAll\<close> takes its defaults for every falsy option value: \<open>maxRecords: 0\<close> is
  replaced by 100 and \<open>view: ""\<close> by \<open>Grid view\<close>, the call behaves as if the option were
  missing, and no request of \<open>getAll\<close> carries \<open>maxRecords\<close> 0 or an empty view.
\<close>

theorem getAll_defaults_by_falsiness:
  "sel_maxRecords (getAll_selectOptions (options\<lparr>maxRecords := Some 0\<rparr>)) = Some 100 \<and>
   sel_view (getAll_selectOptions (options\<lparr>view := Some []\<rparr>)) = Some ''Grid view'' \<and>
   getAll R this (options\<lparr>maxRecords := Some 0\<rparr>) w = getAll R this (options\<lparr>maxRecords := None\<rparr>) w \<and>
   getAll R this (options\<lparr>view := Some []\<rparr>) w = getAll R this (options\<lparr>view := None\<rparr>) w \<and>
   sel_maxRecords (getAll_selectOptions options) \<noteq> Some 0 \<and>
   sel_view (getAll_selectOptions options) \<noteq> Some [] \<and>
   (\<exists>r w' n. getAll R this options w = Some (r, w') \<and>
      calls w' = calls w @ replicate (Suc n) (PageCall (table this) (getAll_selectOptions options)))"
proof -
  have m: "getAll_selectOptions (options\<lparr>maxRecords := Some 0\<rparr>) =
      getAll_selectOptions (options\<lparr>maxRecords := None\<rparr>)"
    by (simp add: getAll_selectOptions_def)
  have v: "getAll_selectOptions (options\<lparr>view := Some []\<rparr>) =
      getAll_selectOptions (options\<lparr>view := None\<rparr>)"
    by (simp add: getAll_selectOptions_def)
  have g: "getAll R this (options\<lparr>maxRecords := Some 0\<rparr>) w = getAll R this (options\<lparr>maxRecords := None\<rparr>) w"
    "getAll R this (options\<lparr>view := Some []\<rparr>) w = getAll R this (options\<lparr>view := None\<rparr>) w"
    unfolding getAll_def m v by simp_all
  have d: "sel_maxRecords (getAll_selectOptions (options\<lparr>maxRecords := Some 0\<rparr>)) = Some 100"
    "sel_view (getAll_selectOptions (options\<lparr>view := Some []\<rparr>)) = Some ''Grid view''"
    "sel_maxRecords (getAll_selectOptions options) \<noteq> Some 0"
    "sel_view (getAll_selectOptions options) \<noteq> Some []"
    by (simp_all add: getAll_selectOptions_def split: option.splits)
  from getAll_returns[of R this options w] have
    "\<exists>r w' n. getAll R this options w = Some (r, w') \<and>
      calls w' = calls w @ replicate (Suc n) (PageCall (table this) (getAll_selectOptions options))"
    by blast
  with g d show ?thesis by simp
qed

text \<open>
  C7. \<open>search\<close> returns what \<open>getAll\<close> returns for the built formula as \<open>filterByFormula\<close>
  and the same \<open>maxRecords\<close> and \<open>view\<close>; when the built formula is the empty string, that
  is what \<open>getAll\<close> returns without any filter, and the select options carry no formula.
\<close>

theorem search_delegates_to_getAll:
  "search T R this options w =
     getAll R this \<lparr>maxRecords = search_maxRecords options, view = search_view options,
       sortBy = None, filterByFormula = Some (buildFilterFormula T (search_filters options))\<rparr> w \<and>
   (buildFilterFormula T (search_filters options) = [] \<longrightarrow>
      search T R this options w =
        getAll R this \<lparr>maxRecords = search_maxRecords options, view = search_view options,
          sortBy = None, filterByFormula = None\<rparr> w \<and>
      sel_filterByFormula (getAll_selectOptions
        \<lparr>maxRecords = search_maxRecords options, view = search_view options,
          sortBy = None, filterByFormula = Some (buildFilterFormula T (search_filters options))\<rparr>) = None) \<and>
   (buildFilterFormula T (search_filters options) \<noteq> [] \<longrightarrow>
      sel_filterByFormula (getAll_selectOptions
        \<lparr>maxRecords = search_maxRecords options, view = search_view options,
          sortBy = None, filterByFormula = Some (buildFilterFormula T (search_filters options))\<rparr>) =
        Some (buildFilterFormula T (search_filters options)))"
proof -
  have "getAll_selectOptions \<lparr>maxRecords = m, view = v, sortBy = None, filterByFormula = Some []\<rparr> =
      getAll_selectOptions \<lparr>maxRecords = m, view = v, sortBy = None, filterByFormula = None\<rparr>" for m v
    by (simp add: getAll_selectOptions_def)
  then have "getAll R this \<lparr>maxRecords = m, view = v, sortBy = None, filterByFormula = Some []\<rparr> w =
      getAll R this \<lparr>maxRecords = m, view = v, sortBy = None, filterByFormula = None\<rparr> w" for m v
    unfolding getAll_def by simp
  then show ?thesis
    by (simp add: search_def Let_def getAll_selectOptions_def)
qed

theorem search_delegates_to_getAll_witness:
  "buildFilterFormula demoRuntime [(''name'', JString []), (''age'', JNull)] = [] \<and>
   search demoRuntime demoRemote demoManager
     \<lparr>search_filters = [(''name'', JString []), (''age'', JNull)], search_maxRecords = None,
      search_view = None\<rparr> demoWorld =
     getAll demoRemote demoManager
       \<lparr>maxRecords = None, view = None, sortBy = None, filterByFormula = None\<rparr> demoWorld"
proof -
  have e: "buildFilterFormula demoRuntime [(''name'', JString []), (''age'', JNull)] = []"
    by (simp add: buildFilterFormula_def pushCondition_def)
  note inst = search_delegates_to_getAll[where T = demoRuntime and R = demoRemote
      and this = demoManager and w = demoWorld
      and options = "\<lparr>search_filters = [(''name'', JString []), (''age'', JNull)],
        search_maxRecords = None, search_view = None\<rparr>"]
  from inst[THEN conjunct2, THEN conjunct1] e
  have "search demoRuntime demoRemote demoManager
     \<lparr>search_filters = [(''name'', JString []), (''age'', JNull)], search_maxRecords = None,
      search_view = None\<rparr> demoWorld =
     getAll demoRemote demoManager
       \<lparr>maxRecords = None, view = None, sortBy = None, filterByFormula = None\<rparr> demoWorld"
    by simp
  with e show ?thesis by simp
qed


section \<open>Properties of pagination\<close>

lemma firstPage_cases:
  obtains e where "l = ListFail e" | p where "firstPage l = Some p"
  by (cases l) auto

text \<open>
  The page callback of \<open>getPaginated\<close> either throws or returns without calling
  \<open>fetchNextPage\<close>: once a page has arrived, the awaited promise stays pending.
\<close>

lemma eachPage_getPaginated:
  "firstPage l = Some p \<Longrightarrow>
     eachPage (getPaginated_callback pageSize) c l acc log = (None, log @ [c])"
  by (cases l; cases acc) (simp_all add: getPaginated_callback_def Let_def)

text \<open>The three ways a call of \<open>getPaginated\<close> can go.\<close>

lemma getPaginated_invalid:
  assumes "offset = Some cursor" and "cursor \<noteq> []"
  shows "getPaginated R this pageSize_arg offset w =
     Some (failure ''Airtable: invalid parameters for select'', w)"
  using assms
  by (simp add: getPaginated_def selectEachPage_def selectValidation_def
      getPaginated_selectOptions_def invalidSelectParameters_def orElse_def Let_def)

lemma getPaginated_valid:
  "offset = None \<or> offset = Some [] \<Longrightarrow>
     selectValidation (getPaginated_selectOptions pageSize offset) = None"
  by (auto simp: selectValidation_def getPaginated_selectOptions_def)

lemma getPaginated_fail:
  assumes "offset = None \<or> offset = Some []"
    and "remoteSelect R (table this)
      (getPaginated_selectOptions (pageSize_default pageSize_arg) offset) (store w) = ListFail e"
  shows "getPaginated R this pageSize_arg offset w =
     Some (failure (orElse (errMessage e) ''Failed to fetch paginated records''),
           w\<lparr>calls := calls w @ [PageCall (table this)
             (getPaginated_selectOptions (pageSize_default pageSize_arg) offset)]\<rparr>)"
  using assms(2) getPaginated_valid[OF assms(1)]
  by (simp add: getPaginated_def selectEachPage_def Let_def)

lemma getPaginated_pending:
  assumes "offset = None \<or> offset = Some []"
    and "firstPage (remoteSelect R (table this)
      (getPaginated_selectOptions (pageSize_default pageSize_arg) offset) (store w)) = Some p"
  shows "getPaginated R this pageSize_arg offset w = None"
  using getPaginated_valid[OF assms(1)]
  by (simp add: getPaginated_def selectEachPage_def Let_def eachPage_getPaginated[OF assms(2)])

text \<open>So no call of \<open>getPaginated\<close> returns a success envelope.\<close>

lemma getPaginated_never_succeeds:
  assumes g: "getPaginated R this pageSize_arg offset w = Some (r, w')"
  shows "\<not> success r"
proof (cases "offset = None \<or> offset = Some []")
  case False
  then obtain cursor where "offset = Some cursor" "cursor \<noteq> []" by (cases offset) auto
  from g[unfolded getPaginated_invalid[OF this]] show ?thesis
    by (auto simp: failure_def)
next
  case True
  show ?thesis
  proof (rule firstPage_cases[of "remoteSelect R (table this)
      (getPaginated_selectOptions (pageSize_default pageSize_arg) offset) (store w)"])
    fix e assume "remoteSelect R (table this)
      (getPaginated_selectOptions (pageSize_default pageSize_arg) offset) (store w) = ListFail e"
    from g[unfolded getPaginated_fail[OF True this]] show ?thesis
      by (auto simp: failure_def)
  next
    fix p assume "firstPage (remoteSelect R (table this)
      (getPaginated_selectOptions (pageSize_default pageSize_arg) offset) (store w)) = Some p"
    from g[unfolded getPaginated_pending[OF True this]] show ?thesis by simp
  qed
qed

text \<open>
  C5. The claim describes what \<open>getPaginated\<close> is written to return, and the code does
  not get there: for a page size of 2 and a table whose first page holds the two records
  \<open>rec1\<close> and \<open>rec2\<close>, the call should return \<open>nextOffset = rec2\<close>; it sends its one
  request, the callback stores the page and the offset, and the method never returns. The
  same holds for the default page size, where \<open>nextOffset\<close> should be left out.
\<close>

theorem paginated_call_never_returns:
  "firstPage (remoteSelect demoRemote (table demoManager)
     (getPaginated_selectOptions (pageSize_default (Some 2)) None) (store demoWorld)) =
     Some [demoRecord ''rec1'', demoRecord ''rec2''] \<and>
   getPaginated_callback 2 ([], None) [demoRecord ''rec1'', demoRecord ''rec2''] =
     Inr (([formatRecord (demoRecord ''rec1''), formatRecord (demoRecord ''rec2'')], Some ''rec2''),
          False) \<and>
   getPaginated demoRemote demoManager (Some 2) None demoWorld = None \<and>
   getPaginated demoRemote demoManager None None demoWorld = None"
proof -
  have fp: "firstPage (remoteSelect demoRemote (table demoManager)
      (getPaginated_selectOptions (pageSize_default ps) None) (store demoWorld)) =
      Some [demoRecord ''rec1'', demoRecord ''rec2'']" for ps
    by (simp add: demoRemote_def)
  have cb: "getPaginated_callback 2 ([], None) [demoRecord ''rec1'', demoRecord ''rec2''] =
     Inr (([formatRecord (demoRecord ''rec1''), formatRecord (demoRecord ''rec2'')], Some ''rec2''),
          False)"
    by (simp add: getPaginated_callback_def demoRecord_def Let_def)
  from fp[of "Some 2"] cb getPaginated_pending[OF _ fp[of "Some 2"]] getPaginated_pending[OF _ fp[of None]]
  show ?thesis by simp
qed

section \<open>The response envelope\<close>

lemma envelope_failure: "envelope (failure m)"
  by (simp add: envelope_def payload_def failure_def)

lemma envelope_succeeded:
  "envelope (succeeded\<lparr>data := Some d\<rparr>)"
  "envelope (succeeded\<lparr>data := Some d, count := Some n\<rparr>)"
  "envelope (succeeded\<lparr>data := Some d, nextOffset := off\<rparr>)"
  "envelope (succeeded\<lparr>count := Some n\<rparr>)"
  "envelope (succeeded\<lparr>message := Some m\<rparr>)"
  "envelope (succeeded\<lparr>deletedCount := Some n, message := Some m\<rparr>)"
  "envelope (succeeded\<lparr>exists := Some b\<rparr>)"
  by (simp_all add: envelope_def payload_def succeeded_def)

lemma create_envelope: "envelope (fst (create R this input w))"
  by (simp add: create_def formatFirst_def envelope_failure envelope_succeeded
      split: prod.splits sum.splits list.splits)

lemma getById_envelope: "envelope (fst (getById R this ident w))"
  by (simp add: getById_def envelope_failure envelope_succeeded split: prod.splits sum.splits)

lemma update_envelope: "envelope (fst (update R this input w))"
  by (simp add: update_def formatFirst_def envelope_failure envelope_succeeded
      split: prod.splits sum.splits list.splits)

lemma delete_envelope: "envelope (fst (delete R this ident w))"
  by (simp add: delete_def envelope_failure envelope_succeeded split: prod.splits sum.splits)

lemma exists_envelope: "envelope (fst (exists_record R this ident w))"
  by (simp add: exists_record_def envelope_failure envelope_succeeded split: prod.splits sum.splits)

lemma bulkCreate_envelope: "envelope (fst (bulkCreate R this xs w))"
proof -
  obtain r w' where rw: "runBatches (tableCreate R (table this))
             (\<lambda>results batch records. results @ map formatRecord records) (chunks 10 xs) [] w = (r, w')"
    by (cases "runBatches (tableCreate R (table this))
             (\<lambda>results batch records. results @ map formatRecord records) (chunks 10 xs) [] w")
  show ?thesis
    unfolding bulkCreate_result[OF rw] by (cases r) (simp_all add: envelope_failure envelope_succeeded)
qed

lemma bulkUpdate_envelope: "envelope (fst (bulkUpdate R this xs w))"
proof -
  obtain r w' where rw: "runBatches (tableUpdate R (table this))
             (\<lambda>results batch records. results @ map formatRecord records) (chunks 10 xs) [] w = (r, w')"
    by (cases "runBatches (tableUpdate R (table this))
             (\<lambda>results batch records. results @ map formatRecord records) (chunks 10 xs) [] w")
  show ?thesis
    unfolding bulkUpdate_result[OF rw] by (cases r) (simp_all add: envelope_failure envelope_succeeded)
qed

lemma bulkDelete_envelope: "envelope (fst (bulkDelete R this xs w))"
proof -
  obtain r w' where rw: "runBatches (tableDestroy R (table this))
             (\<lambda>n batch records. n + length batch) (chunks 10 xs) 0 w = (r, w')"
    by (cases "runBatches (tableDestroy R (table this))
             (\<lambda>n batch records. n + length batch) (chunks 10 xs) 0 w")
  show ?thesis
    unfolding bulkDelete_result[OF rw] by (cases r) (simp_all add: envelope_failure envelope_succeeded)
qed

lemma getAll_envelope: "\<exists>r w'. getAll R this options w = Some (r, w') \<and> envelope r"
proof -
  from getAll_returns[of R this options w] obtain r w' where
    g: "getAll R this options w = Some (r, w')" by blast
  then have "envelope r"
    unfolding getAll_def
    by (auto simp: envelope_failure envelope_succeeded split: prod.splits option.splits sum.splits)
  with g show ?thesis by blast
qed

lemma search_envelope: "\<exists>r w'. search T R this options w = Some (r, w') \<and> envelope r"
  unfolding search_def Let_def by (rule getAll_envelope)

lemma count_envelope: "\<exists>r w'. count_records R this formula w = Some (r, w') \<and> envelope r"
proof -
  let ?opts = "\<lparr>sel_maxRecords = None, sel_view = Some ''Grid view'', sel_sort = None,
             sel_filterByFormula =
               (case formula of None \<Rightarrow> None | Some f \<Rightarrow> if f = [] then None else Some f),
             sel_offset = None, sel_fields = Some []\<rparr>"
  let ?e = "eachPage (\<lambda>n records. Inr (n + length records, True)) (PageCall (table this) ?opts)
      (remoteSelect R (table this) ?opts (store w)) 0 (calls w)"
  have v: "selectValidation ?opts = None" by (simp add: selectValidation_def)
  obtain x log where e: "?e = (x, log)" by (cases ?e)
  from eachPage_advancing[of "\<lambda>n records. n + length records" "PageCall (table this) ?opts"
      "remoteSelect R (table this) ?opts (store w)" 0 "calls w"] e
  obtain y where x: "x = Some y" by auto
  show ?thesis
    unfolding count_records_def selectEachPage_def Let_def v e x
    by (cases y) (simp_all add: envelope_failure envelope_succeeded)
qed

lemma getPaginated_envelope:
  "getPaginated R this pageSize_arg offset w = Some (r, w') \<Longrightarrow> envelope r"
  unfolding getPaginated_def Let_def
  by (auto simp: envelope_failure envelope_succeeded split: prod.splits option.splits sum.splits)

lemma switchTable_thrown:
  "fst (switchTable name this w) = (if name = [] then Some tableNameRequired else None)"
  by (simp add: switchTable_def libraryTable_def Let_def)

text \<open>
  C6 (as amended). Each of \<open>create\<close>, \<open>getAll\<close>, \<open>getById\<close>, \<open>search\<close>, \<open>update\<close>,
  \<open>delete\<close>, \<open>bulkCreate\<close>, \<open>bulkUpdate\<close>, \<open>bulkDelete\<close>, \<open>count\<close> and \<open>exists\<close> returns a
  response envelope: its result is a value (an error thrown inside it is caught into a
  failure envelope), and in every envelope, also in any that \<open>getPaginated\<close> returns,
  exactly one case is populated: success with a payload member and no \<open>error\<close>, or failure
  with an \<open>error\<close> string and no payload member. \<open>getConfig\<close> and \<open>switchTable\<close> return
  no envelope: the configuration, and nothing; \<open>switchTable\<close> throws for the empty name.
\<close>

theorem envelope_of_every_operation:
  "envelope (fst (create R this cinput w)) \<and>
   envelope (fst (getById R this ident w)) \<and>
   envelope (fst (update R this uinput w)) \<and>
   envelope (fst (delete R this ident w)) \<and>
   envelope (fst (exists_record R this ident w)) \<and>
   envelope (fst (bulkCreate R this xs w)) \<and>
   envelope (fst (bulkUpdate R this us w)) \<and>
   envelope (fst (bulkDelete R this ids w)) \<and>
   (\<exists>r w'. getAll R this options w = Some (r, w') \<and> envelope r) \<and>
   (\<exists>r w'. search T R this soptions w = Some (r, w') \<and> envelope r) \<and>
   (\<exists>r w'. count_records R this formula w = Some (r, w') \<and> envelope r) \<and>
   (\<forall>r w'. getPaginated R this pageSize_arg offset w = Some (r, w') \<longrightarrow> envelope r) \<and>
   getConfig this = config this \<and>
   fst (switchTable name this w) = (if name = [] then Some tableNameRequired else None)"
proof -
  have "\<forall>r w'. getPaginated R this pageSize_arg offset w = Some (r, w') \<longrightarrow> envelope r"
    using getPaginated_envelope by blast
  then show ?thesis
    by (intro conjI create_envelope getById_envelope update_envelope delete_envelope
        exists_envelope bulkCreate_envelope bulkUpdate_envelope bulkDelete_envelope
        getAll_envelope search_envelope count_envelope switchTable_thrown getConfig_def)
qed

theorem envelope_of_every_operation_witness:
  "envelope (fst (create demoRemote demoManager \<lparr>create_fields = ''Bob''\<rparr> demoWorld)) \<and>
   success (fst (create demoRemote demoManager \<lparr>create_fields = ''Bob''\<rparr> demoWorld)) \<and>
   envelope (fst (getById demoRemote demoManager ''recMissing'' demoWorld)) \<and>
   \<not> success (fst (getById demoRemote demoManager ''recMissing'' demoWorld)) \<and>
   envelope (fst (bulkDelete demoRemote demoManager [''rec1'', ''rec2''] demoWorld)) \<and>
   getAll demoRemote demoManager
     \<lparr>maxRecords = None, view = None, sortBy = None, filterByFormula = None\<rparr> demoWorld \<noteq> None \<and>
   getPaginated demoRemote demoManager None (Some ''rec2'') demoWorld =
     Some (failure ''Airtable: invalid parameters for select'', demoWorld) \<and>
   envelope (failure ''Airtable: invalid parameters for select'' :: string AirtableRecord list response) \<and>
   fst (switchTable ''Orders'' demoManager demoWorld) = None"
proof -
  note inst = envelope_of_every_operation[where R = demoRemote and this = demoManager
      and w = demoWorld and cinput = "\<lparr>create_fields = ''Bob''\<rparr>" and ident = "''recMissing''"
      and ids = "[''rec1'', ''rec2'']" and pageSize_arg = None and offset = "Some ''rec2''"
      and options = "\<lparr>maxRecords = None, view = None, sortBy = None, filterByFormula = None\<rparr>"
      and T = demoRuntime and name = "''Orders''"]
  have g: "getPaginated demoRemote demoManager None (Some ''rec2'') demoWorld =
     Some (failure ''Airtable: invalid parameters for select'', demoWorld)"
    by (rule getPaginated_invalid[OF refl]) simp
  with inst have p: "envelope (failure ''Airtable: invalid parameters for select''
      :: string AirtableRecord list response)"
    by blast
  from inst obtain r1 w1 where "getAll demoRemote demoManager
     \<lparr>maxRecords = None, view = None, sortBy = None, filterByFormula = None\<rparr> demoWorld = Some (r1, w1)"
    by blast
  then have a: "getAll demoRemote demoManager
     \<lparr>maxRecords = None, view = None, sortBy = None, filterByFormula = None\<rparr> demoWorld \<noteq> None"
    by simp
  have c: "success (fst (create demoRemote demoManager \<lparr>create_fields = ''Bob''\<rparr> demoWorld))"
    by (simp add: create_def tableCreate_def demoRemote_def formatFirst_def succeeded_def)
  have f: "\<not> success (fst (getById demoRemote demoManager ''recMissing'' demoWorld))"
    by (simp add: getById_def tableFind_def demoRemote_def failure_def)
  from inst have sw: "fst (switchTable ''Orders'' demoManager demoWorld) = None" by simp
  from inst g p a c f sw show ?thesis by blast
qed

text \<open>
  C6 as stated fails: \<open>switchTable\<close> with the empty name throws past its boundary, after
  it has changed the configuration, and \<open>getPaginated\<close> returns nothing, no envelope
  either, once a page has arrived.
\<close>

theorem envelope_counterexample:
  "switchTable [] demoManager demoWorld =
     (Some tableNameRequired, demoManager\<lparr>config := (config demoManager)\<lparr>tableName := []\<rparr>\<rparr>,
      demoWorld) \<and>
   getPaginated demoRemote demoManager (Some 2) None demoWorld = None"
proof -
  have fp: "firstPage (remoteSelect demoRemote (table demoManager)
      (getPaginated_selectOptions (pageSize_default (Some 2)) None) (store demoWorld)) =
      Some [demoRecord ''rec1'', demoRecord ''rec2'']"
    by (simp add: demoRemote_def)
  have "switchTable [] demoManager demoWorld =
     (Some tableNameRequired, demoManager\<lparr>config := (config demoManager)\<lparr>tableName := []\<rparr>\<rparr>,
      demoWorld)"
    by (simp add: switchTable_def libraryTable_def Let_def)
  with getPaginated_pending[OF _ fp] show ?thesis by simp
qed

end
